theory Spec2Isabelle
  imports Complex_Main
begin

section \<open>Python values shared by the components\<close>

text \<open>
  Exceptions are values. \<open>KeyboardInterrupt\<close> derives from \<open>BaseException\<close> only;
  every other constructor stands for a subclass of \<open>Exception\<close> and carries the
  text that \<open>str(e)\<close> yields.
\<close>

datatype py_exception =
    KeyboardInterrupt
  | ValueError string
  | NotADirectoryError string
  | ZeroDivisionError string
  | NoSuchElementException string
  | Exception string

text \<open>\<open>except Exception\<close> catches everything but the interrupt.\<close>

fun is_Exception :: "py_exception \<Rightarrow> bool" where
  "is_Exception KeyboardInterrupt = False"
| "is_Exception e = True"

text \<open>\<open>str(e)\<close>: the text the exception was raised with.\<close>

fun str_exception :: "py_exception \<Rightarrow> string" where
  "str_exception KeyboardInterrupt = []"
| "str_exception (ValueError msg) = msg"
| "str_exception (NotADirectoryError msg) = msg"
| "str_exception (ZeroDivisionError msg) = msg"
| "str_exception (NoSuchElementException msg) = msg"
| "str_exception (Exception msg) = msg"

text \<open>\<open>range(i, n, step)\<close> for a non-negative \<open>step\<close>; the caller rules out \<open>step = 0\<close>.\<close>

function py_range :: "nat \<Rightarrow> nat \<Rightarrow> nat \<Rightarrow> nat list" where
  "py_range i n step =
     (if step = 0 then [] else if i < n then i # py_range (i + step) n step else [])"
  by pat_completeness auto
termination
  by (relation "measure (\<lambda>(i, n, step). n - i)") auto

declare py_range.simps [simp del]

text \<open>The slice \<open>xs[i:j]\<close> for \<open>0 \<le> i \<le> j\<close>; it stops at the end of the list.\<close>

definition slice :: "'a list \<Rightarrow> nat \<Rightarrow> nat \<Rightarrow> 'a list" where
  "slice xs i j = take (j - i) (drop i xs)"

text \<open>\<open>str(n)\<close> for an integer: decimal digits, with a sign for a negative number.\<close>

definition digit_char :: "nat \<Rightarrow> char" where
  "digit_char d = ''0123456789'' ! d"

function str_nat :: "nat \<Rightarrow> string" where
  "str_nat n = (if n < 10 then [digit_char n] else str_nat (n div 10) @ [digit_char (n mod 10)])"
  by pat_completeness auto
termination
  by (relation "measure id") auto

declare str_nat.simps [simp del]

definition str_int :: "int \<Rightarrow> string" where
  "str_int i = (if i < 0 then ''-'' @ str_nat (nat (- i)) else str_nat (nat i))"

section \<open>The file system seen by pathlib\<close>

text \<open>
  What lies at a path: a regular file, or a directory with its entries in the order
  \<open>iterdir\<close> yields them. A path that does not exist has no node.
\<close>

datatype fsnode = File | Dir "(string \<times> fsnode) list"

text \<open>\<open>(p / name).exists()\<close>, as the node found there; below a regular file nothing exists.\<close>

fun child :: "fsnode \<Rightarrow> string \<Rightarrow> fsnode option" where
  "child File name = None"
| "child (Dir entries) name = map_of entries name"

text \<open>\<open>p.iterdir()\<close> raises \<open>NotADirectoryError\<close> on a regular file.\<close>

fun iterdir :: "fsnode \<Rightarrow> py_exception + (string \<times> fsnode) list" where
  "iterdir File = Inl (NotADirectoryError ''[Errno 20] Not a directory'')"
| "iterdir (Dir entries) = Inr entries"

fun is_file :: "fsnode \<Rightarrow> bool" where
  "is_file File = True"
| "is_file (Dir entries) = False"

text \<open>
  \<open>PurePath.suffix\<close>: with \<open>i = name.rfind('.')\<close>, the text \<open>name[i:]\<close> when
  \<open>0 < i < len(name) - 1\<close>, and the empty string otherwise.
\<close>

definition suffix :: "string \<Rightarrow> string" where
  "suffix name =
     (if CHR ''.'' \<notin> set name then []
      else let i = length name - length (takeWhile (\<lambda>c. c \<noteq> CHR ''.'') (rev name)) - 1
           in if 0 < i \<and> i < length name - 1 then drop i name else [])"

text \<open>\<open>str(dir / name)\<close> for a directory path without a trailing separator.\<close>

definition path_join :: "string \<Rightarrow> string \<Rightarrow> string" where
  "path_join dir name = dir @ ''/'' @ name"

section \<open>Dataset manager (test_dataset_manager.py)\<close>

record TestDatasetManager =
  base_dir :: string
  supported_extensions :: "string list"
  images :: "(string \<times> int) list"
  total_count :: nat

text \<open>\<open>__init__\<close>: an absent or empty extension list is replaced by the default one.\<close>

definition default_extensions :: "string list" where
  "default_extensions = [''.jpg'', ''.jpeg'', ''.png'', ''.JPG'', ''.JPEG'', ''.PNG'']"

definition init_manager :: "string \<Rightarrow> string list option \<Rightarrow> TestDatasetManager" where
  "init_manager dir exts =
     \<lparr> base_dir = dir,
       supported_extensions =
         (case exts of None \<Rightarrow> default_extensions
          | Some es \<Rightarrow> if es = [] then default_extensions else es),
       images = [],
       total_count = 0 \<rparr>"

text \<open>The names tried for a class, in the order of the source.\<close>

definition possible_names :: "int \<Rightarrow> string list" where
  "possible_names class_label =
     [''MES '' @ str_int class_label, ''MES'' @ str_int class_label, str_int class_label]"

text \<open>The inner \<open>for name in possible_names\<close> loop: the first name that exists.\<close>

fun first_existing :: "fsnode \<Rightarrow> string list \<Rightarrow> (string \<times> fsnode) option" where
  "first_existing tree [] = None"
| "first_existing tree (name # names) =
     (case child tree name of
        Some node \<Rightarrow> Some (name, node)
      | None \<Rightarrow> first_existing tree names)"

text \<open>The images of one resolved class directory, in directory order.\<close>

definition class_images ::
  "string \<Rightarrow> string list \<Rightarrow> int \<Rightarrow> (string \<times> fsnode) list \<Rightarrow> (string \<times> int) list" where
  "class_images class_path exts class_label entries =
     map (\<lambda>(fname, node). (path_join class_path fname, class_label))
         (filter (\<lambda>(fname, node). is_file node \<and> suffix fname \<in> set exts) entries)"

text \<open>
  The \<open>for class_label in [0, 1, 2, 3]\<close> loop over the remaining labels, with the
  images collected so far. An unresolved class is skipped (\<open>continue\<close>); a failing
  \<open>iterdir\<close> ends the loop with its exception.
\<close>

fun load_classes ::
  "string \<Rightarrow> fsnode \<Rightarrow> string list \<Rightarrow> int list \<Rightarrow> (string \<times> int) list
     \<Rightarrow> py_exception + (string \<times> int) list" where
  "load_classes dir tree exts [] acc = Inr acc"
| "load_classes dir tree exts (class_label # rest) acc =
     (case first_existing tree (possible_names class_label) of
        None \<Rightarrow> load_classes dir tree exts rest acc
      | Some (name, node) \<Rightarrow>
          (case iterdir node of
             Inl e \<Rightarrow> Inl e
           | Inr entries \<Rightarrow>
               load_classes dir tree exts rest
                 (acc @ class_images (path_join dir name) exts class_label entries)))"

text \<open>
  \<open>load_dataset\<close>, given what the file system holds at \<open>base_dir\<close> (\<open>None\<close> when the
  path does not exist). It returns the image list and the updated manager.
\<close>

definition load_dataset ::
  "fsnode option \<Rightarrow> TestDatasetManager
     \<Rightarrow> py_exception + ((string \<times> int) list \<times> TestDatasetManager)" where
  "load_dataset fs m =
     (case fs of
        None \<Rightarrow> Inl (ValueError (''Dataset directory does not exist: '' @ base_dir m))
      | Some tree \<Rightarrow>
          (case load_classes (base_dir m) tree (supported_extensions m) [0, 1, 2, 3] [] of
             Inl e \<Rightarrow> Inl e
           | Inr imgs \<Rightarrow> Inr (imgs, m\<lparr>images := imgs, total_count := length imgs\<rparr>)))"

text \<open>\<open>get_class_distribution\<close>: a dictionary over the four classes, counted up per image.\<close>

definition get_class_distribution :: "TestDatasetManager \<Rightarrow> (int \<rightharpoonup> nat)" where
  "get_class_distribution m =
     fold (\<lambda>(p, class_label) distribution.
             case distribution class_label of
               Some n \<Rightarrow> distribution(class_label \<mapsto> n + 1)
             | None \<Rightarrow> distribution)
          (images m)
          [0 \<mapsto> 0, 1 \<mapsto> 0, 2 \<mapsto> 0, 3 \<mapsto> 0]"

text \<open>
  \<open>get_batches\<close>: \<open>range(0, len(self.images), batch_size)\<close> raises \<open>ValueError\<close> for a
  zero step and is empty for a negative one.
\<close>

definition get_batches ::
  "TestDatasetManager \<Rightarrow> int \<Rightarrow> py_exception + (string \<times> int) list list" where
  "get_batches m batch_size =
     (if batch_size = 0 then Inl (ValueError ''range() arg 3 must not be zero'')
      else if batch_size < 0 then Inr []
      else Inr (map (\<lambda>i. slice (images m) i (i + nat batch_size))
                    (py_range 0 (length (images m)) (nat batch_size))))"

section \<open>Results analyzer (results_analyzer.py)\<close>

text \<open>
  One entry of \<open>self.results\<close>, with the keys \<open>add_result\<close> stores. Processing times
  are Python floats; they are modelled as real numbers, so rounding is left out.
\<close>

record result =
  image_path :: string
  image_name :: string
  ground_truth :: int
  predicted :: "int option"
  processing_time :: real
  success :: bool
  correct :: bool
  error :: string

record ResultsAnalyzer =
  output_dir :: string
  results :: "result list"

definition init_analyzer :: "string \<Rightarrow> ResultsAnalyzer" where
  "init_analyzer dir = \<lparr> output_dir = dir, results = [] \<rparr>"

text \<open>\<open>Path(p).name\<close> for the path of a file: the text after the last separator.\<close>

definition path_name :: "string \<Rightarrow> string" where
  "path_name p = rev (takeWhile (\<lambda>c. c \<noteq> CHR ''/'') (rev p))"

definition add_result ::
  "ResultsAnalyzer \<Rightarrow> string \<Rightarrow> int \<Rightarrow> int option \<Rightarrow> real \<Rightarrow> bool \<Rightarrow> string \<Rightarrow> ResultsAnalyzer" where
  "add_result a path gt pred time ok error_msg =
     a\<lparr>results := results a @
        [\<lparr> image_path = path,
           image_name = path_name path,
           ground_truth = gt,
           predicted = pred,
           processing_time = time,
           success = ok,
           correct = (case pred of None \<Rightarrow> False | Some p \<Rightarrow> p = gt),
           error = error_msg \<rparr>]\<rparr>"

text \<open>Numbers stored in the metrics dictionary; a dictionary keeps its insertion order.\<close>

datatype py_num = PyInt int | PyFloat real

fun dict_set :: "(string \<times> 'v) list \<Rightarrow> string \<Rightarrow> 'v \<Rightarrow> (string \<times> 'v) list" where
  "dict_set [] k v = [(k, v)]"
| "dict_set ((k', v') # d) k v = (if k' = k then (k, v) # d else (k', v') # dict_set d k v)"

text \<open>The division \<open>a / b\<close> of two integers raises on a zero divisor.\<close>

definition py_truediv :: "int \<Rightarrow> int \<Rightarrow> py_exception + real" where
  "py_truediv a b =
     (if b = 0 then Inl (ZeroDivisionError ''division by zero'')
      else Inr (real_of_int a / real_of_int b))"

text \<open>
  \<open>sklearn.metrics.accuracy_score\<close> on two label lists of one length: the share of
  positions where they agree. The library gives no meaningful number for empty lists;
  the model makes that case an error, so that reaching it would show in the result.
\<close>

definition accuracy_score :: "int list \<Rightarrow> int list \<Rightarrow> py_exception + real" where
  "accuracy_score y_true y_pred =
     (if y_true = [] then Inl (ValueError ''accuracy_score of no samples'')
      else Inr (real (length (filter (\<lambda>(t, p). t = p) (zip y_true y_pred)))
                / real (length y_true)))"

definition accuracy_key :: "int \<Rightarrow> string" where
  "accuracy_key mes_class = ''MES_'' @ str_int mes_class @ ''_accuracy''"

text \<open>The \<open>for mes_class in [0, 1, 2, 3]\<close> loop that fills \<open>per_class_accuracy\<close>.\<close>

fun per_class_loop ::
  "result list \<Rightarrow> int list \<Rightarrow> (string \<times> py_num) list \<Rightarrow> py_exception + (string \<times> py_num) list" where
  "per_class_loop successful_results [] per_class_accuracy = Inr per_class_accuracy"
| "per_class_loop successful_results (mes_class # rest) per_class_accuracy =
     (let class_results = filter (\<lambda>r. ground_truth r = mes_class) successful_results
      in if class_results \<noteq> [] then
           (case py_truediv (int (length (filter correct class_results)))
                            (int (length class_results)) of
              Inl e \<Rightarrow> Inl e
            | Inr q \<Rightarrow>
                per_class_loop successful_results rest
                  (dict_set per_class_accuracy (accuracy_key mes_class) (PyFloat q)))
         else
           per_class_loop successful_results rest
             (dict_set per_class_accuracy (accuracy_key mes_class) (PyFloat 0)))"

definition calculate_accuracy_metrics ::
  "ResultsAnalyzer \<Rightarrow> py_exception + (string \<times> py_num) list" where
  "calculate_accuracy_metrics a =
     (let successful_results = filter (\<lambda>r. success r \<and> predicted r \<noteq> None) (results a)
      in if successful_results = [] then
           Inr [(''overall_accuracy'', PyFloat 0),
                (''total_tested'', PyInt (int (length (results a)))),
                (''successful_tests'', PyInt 0),
                (''failed_tests'', PyInt (int (length (results a))))]
         else
           (let y_true = map ground_truth successful_results;
                y_pred = map (\<lambda>r. the (predicted r)) successful_results
            in case accuracy_score y_true y_pred of
                 Inl e \<Rightarrow> Inl e
               | Inr overall_accuracy \<Rightarrow>
                   (case per_class_loop successful_results [0, 1, 2, 3] [] of
                      Inl e \<Rightarrow> Inl e
                    | Inr per_class_accuracy \<Rightarrow>
                        Inr (fold (\<lambda>(k, v) d. dict_set d k v) per_class_accuracy
                               [(''overall_accuracy'', PyFloat overall_accuracy),
                                (''total_tested'', PyInt (int (length (results a)))),
                                (''successful_tests'', PyInt (int (length successful_results))),
                                (''failed_tests'',
                                   PyInt (int (length (results a))
                                          - int (length successful_results)))]))))"

text \<open>The numpy reductions used on a non-empty list of times.\<close>

definition np_mean :: "real list \<Rightarrow> real" where
  "np_mean xs = sum_list xs / real (length xs)"

definition np_median :: "real list \<Rightarrow> real" where
  "np_median xs =
     (let s = sort xs; n = length xs
      in if even n then (s ! (n div 2 - 1) + s ! (n div 2)) / 2 else s ! (n div 2))"

definition np_min :: "real list \<Rightarrow> real" where
  "np_min xs = fold min (tl xs) (hd xs)"

definition np_max :: "real list \<Rightarrow> real" where
  "np_max xs = fold max (tl xs) (hd xs)"

definition np_std :: "real list \<Rightarrow> real" where
  "np_std xs = sqrt (np_mean (map (\<lambda>x. (x - np_mean xs)\<^sup>2) xs))"

definition calculate_timing_statistics :: "ResultsAnalyzer \<Rightarrow> (string \<times> real) list" where
  "calculate_timing_statistics a =
     (let successful_times = map processing_time (filter success (results a))
      in if successful_times = [] then
           [(''mean_time'', 0), (''median_time'', 0), (''min_time'', 0), (''max_time'', 0),
            (''std_time'', 0),
            (''total_time'', sum_list (map processing_time (results a)))]
         else
           [(''mean_time'', np_mean successful_times),
            (''median_time'', np_median successful_times),
            (''min_time'', np_min successful_times),
            (''max_time'', np_max successful_times),
            (''std_time'', np_std successful_times),
            (''total_time'', sum_list (map processing_time (results a)))])"

text \<open>A result set as a run records it: one \<open>add_result\<close> call per outcome.\<close>

type_synonym outcome = "string \<times> int \<times> int option \<times> real \<times> bool \<times> string"

definition record_all :: "string \<Rightarrow> outcome list \<Rightarrow> ResultsAnalyzer" where
  "record_all dir outs =
     fold (\<lambda>(path, gt, pred, time, ok, msg) a. add_result a path gt pred time ok msg)
          outs (init_analyzer dir)"

section \<open>Orchestrator (run_tests.py)\<close>

text \<open>
  The calls of the loop that reach outside the program, as functions of the state of the
  outside world \<open>'w\<close> (browser session, clock, disk): each returns what the call
  returned or raised, and the world after it. \<open>test_single_image\<close> and
  \<open>save_screenshot\<close> are called on the tester but not defined in
  colonoscopy_tester.py, so the loop is modelled for any behaviour of them.
  \<open>write_csv\<close> is the \<open>DataFrame.to_csv\<close> call of \<open>save_detailed_results\<close>.
\<close>

record 'w tester_env =
  test_single_image :: "string \<Rightarrow> 'w \<Rightarrow> (py_exception + (int option \<times> real \<times> bool)) \<times> 'w"
  save_screenshot :: "string \<Rightarrow> 'w \<Rightarrow> py_exception option \<times> 'w"
  reset_for_next_image :: "'w \<Rightarrow> py_exception option \<times> 'w"
  write_csv :: "string \<Rightarrow> result list \<Rightarrow> 'w \<Rightarrow> py_exception option \<times> 'w"

text \<open>The command-line arguments the loop reads.\<close>

record run_args =
  output_arg :: string
  batch_size_arg :: int

text \<open>
  The variables of \<open>run_tests\<close> during the loop. \<open>flushes\<close> lists the names of the
  files \<open>save_detailed_results\<close> has written, with the number of rows of each.
\<close>

record 'w run_state =
  analyzer :: ResultsAnalyzer
  failed_count :: int
  processed_count :: int
  flushes :: "(string \<times> nat) list"
  world :: 'w

definition SAVE_SCREENSHOTS_ON_ERROR :: bool where
  "SAVE_SCREENSHOTS_ON_ERROR = True"

definition DETAILED_RESULTS_FILE :: string where
  "DETAILED_RESULTS_FILE = ''results_detailed.csv''"

text \<open>\<open>Path(p).stem\<close>: the final component without its suffix.\<close>

definition path_stem :: "string \<Rightarrow> string" where
  "path_stem p = take (length (path_name p) - length (suffix (path_name p))) (path_name p)"

definition screenshot_path :: "run_args \<Rightarrow> nat \<Rightarrow> string \<Rightarrow> string" where
  "screenshot_path args idx path =
     path_join (output_arg args) (''error_'' @ str_nat idx @ ''_'' @ path_stem path @ ''.png'')"

definition intermediate_name :: "int \<Rightarrow> string" where
  "intermediate_name count = ''results_intermediate_'' @ str_int count @ ''.csv''"

text \<open>\<open>analyzer.save_detailed_results(filename)\<close>: one row per recorded result.\<close>

definition save_detailed_results ::
  "'w tester_env \<Rightarrow> string \<Rightarrow> 'w run_state \<Rightarrow> 'w run_state \<times> py_exception option" where
  "save_detailed_results env filename s =
     (case write_csv env (path_join (output_dir (analyzer s)) filename)
                     (results (analyzer s)) (world s) of
        (Some e, w) \<Rightarrow> (s\<lparr>world := w\<rparr>, Some e)
      | (None, w) \<Rightarrow>
          (s\<lparr>world := w,
             flushes := flushes s @ [(filename, length (results (analyzer s)))]\<rparr>, None))"

text \<open>The \<open>if success: ... else: ...\<close> statement that records the result of a trial.\<close>

definition record_trial ::
  "'w tester_env \<Rightarrow> run_args \<Rightarrow> nat \<Rightarrow> string \<Rightarrow> int \<Rightarrow> int option \<Rightarrow> real \<Rightarrow> bool
     \<Rightarrow> 'w run_state \<Rightarrow> 'w run_state \<times> py_exception option" where
  "record_trial env args idx path gt pred time ok s =
     (if ok then
        (s\<lparr>analyzer := add_result (analyzer s) path gt pred time True []\<rparr>, None)
      else
        (let s1 = s\<lparr>failed_count := failed_count s + 1,
                     analyzer := add_result (analyzer s) path gt None time False
                                   ''Failed to process image''\<rparr>
         in if SAVE_SCREENSHOTS_ON_ERROR then
              (case save_screenshot env (screenshot_path args idx path) (world s1) of
                 (r, w) \<Rightarrow> (s1\<lparr>world := w\<rparr>, r))
            else (s1, None)))"

text \<open>
  The body of the \<open>try\<close> statement for the image at index \<open>idx\<close> of \<open>n\<close> images:
  the state reached, and the exception that left the body, if any. What was assigned
  before a raise stays assigned.
\<close>

definition try_body ::
  "'w tester_env \<Rightarrow> run_args \<Rightarrow> nat \<Rightarrow> nat \<Rightarrow> string \<times> int \<Rightarrow> 'w run_state
     \<Rightarrow> 'w run_state \<times> py_exception option" where
  "try_body env args n idx img s =
     (case test_single_image env (fst img) (world s) of
        (Inl e, w) \<Rightarrow> (s\<lparr>world := w\<rparr>, Some e)
      | (Inr (pred, time, ok), w) \<Rightarrow>
          (case record_trial env args idx (fst img) (snd img) pred time ok (s\<lparr>world := w\<rparr>) of
             (s1, Some e) \<Rightarrow> (s1, Some e)
           | (s1, None) \<Rightarrow>
               (let s2 = s1\<lparr>processed_count := processed_count s1 + 1\<rparr>
                in case (if int idx < int n - 1 then reset_for_next_image env (world s2)
                         else (None, world s2)) of
                     (Some e, w') \<Rightarrow> (s2\<lparr>world := w'\<rparr>, Some e)
                   | (None, w') \<Rightarrow>
                       (let s3 = s2\<lparr>world := w'\<rparr>
                        in if batch_size_arg args = 0 then
                             (s3, Some (ZeroDivisionError ''integer modulo by zero''))
                           else if processed_count s3 mod batch_size_arg args = 0 then
                             save_detailed_results env
                               (intermediate_name (processed_count s3)) s3
                           else (s3, None)))))"

text \<open>The \<open>except Exception as e\<close> handler.\<close>

definition on_exception :: "'w run_state \<Rightarrow> string \<times> int \<Rightarrow> py_exception \<Rightarrow> 'w run_state" where
  "on_exception s img e =
     s\<lparr>failed_count := failed_count s + 1,
       analyzer := add_result (analyzer s) (fst img) (snd img) None 0 False
                     (str_exception e)\<rparr>"

text \<open>\<open>enumerate(images)\<close>, counting from \<open>i\<close>.\<close>

fun enumerate_from :: "nat \<Rightarrow> 'a list \<Rightarrow> (nat \<times> 'a) list" where
  "enumerate_from i [] = []"
| "enumerate_from i (x # xs) = (i, x) # enumerate_from (Suc i) xs"

text \<open>
  The \<open>for idx, (image_path, ground_truth) in enumerate(images)\<close> loop over the
  remaining images: \<open>KeyboardInterrupt\<close> leaves the loop, any other exception is
  handled and the loop goes on.
\<close>

fun run_loop ::
  "'w tester_env \<Rightarrow> run_args \<Rightarrow> nat \<Rightarrow> (nat \<times> string \<times> int) list \<Rightarrow> 'w run_state
     \<Rightarrow> 'w run_state" where
  "run_loop env args n [] s = s"
| "run_loop env args n ((idx, img) # rest) s =
     (case try_body env args n idx img s of
        (s', None) \<Rightarrow> run_loop env args n rest s'
      | (s', Some e) \<Rightarrow>
          if is_Exception e then run_loop env args n rest (on_exception s' img e)
          else s')"

text \<open>
  Steps 3 to 5 of \<open>run_tests\<close> for a loaded image list: a fresh analyzer, the loop, and
  the final \<open>save_detailed_results\<close> call, whose exceptions are caught. The other three
  report files written after it are left out.
\<close>

definition initial_state :: "run_args \<Rightarrow> 'w \<Rightarrow> 'w run_state" where
  "initial_state args w =
     \<lparr> analyzer = init_analyzer (output_arg args), failed_count = 0, processed_count = 0,
       flushes = [], world = w \<rparr>"

definition run_images ::
  "'w tester_env \<Rightarrow> run_args \<Rightarrow> (string \<times> int) list \<Rightarrow> 'w \<Rightarrow> 'w run_state" where
  "run_images env args imgs w =
     fst (save_detailed_results env DETAILED_RESULTS_FILE
            (run_loop env args (length imgs) (enumerate_from 0 imgs) (initial_state args w)))"

section \<open>Session driver: result extraction (colonoscopy_tester.py)\<close>

text \<open>
  Page texts are strings of code points below 256. \<open>py_isspace\<close> is what \<open>\s\<close> and
  \<open>str.strip\<close> take for white space among them.
\<close>

definition py_isspace :: "char \<Rightarrow> bool" where
  "py_isspace c \<longleftrightarrow>
     c \<in> set [CHR 0x09, CHR 0x0A, CHR 0x0B, CHR 0x0C, CHR 0x0D, CHR 0x1C, CHR 0x1D, CHR 0x1E,
              CHR 0x1F, CHR '' '', CHR 0x85, CHR 0xA0]"

definition strip :: "string \<Rightarrow> string" where
  "strip s = rev (dropWhile py_isspace (rev (dropWhile py_isspace s)))"

text \<open>Lower case of an ASCII letter, for \<open>re.IGNORECASE\<close>; the literals are ASCII.\<close>

definition to_lower :: "char \<Rightarrow> char" where
  "to_lower c =
     (case map_of (zip ''ABCDEFGHIJKLMNOPQRSTUVWXYZ'' ''abcdefghijklmnopqrstuvwxyz'') c of
        Some l \<Rightarrow> l
      | None \<Rightarrow> c)"

text \<open>
  Every regular expression of the source has one shape: a literal text, then any number of
  characters of one class (\<open>\s*\<close> or \<open>[:\s]*\<close>), then the group \<open>([0-3])\<close>.
\<close>

record re_pattern =
  literal :: string
  separators :: "char \<Rightarrow> bool"
  ignore_case :: bool

text \<open>The literal at the start of the text: what follows it, if it matches.\<close>

definition char_matches :: "bool \<Rightarrow> char \<Rightarrow> char \<Rightarrow> bool" where
  "char_matches ic p c = (if ic then to_lower p = to_lower c else p = c)"

fun match_literal :: "bool \<Rightarrow> string \<Rightarrow> string \<Rightarrow> string option" where
  "match_literal ic [] s = Some s"
| "match_literal ic (p # ps) [] = None"
| "match_literal ic (p # ps) (c # cs) =
     (if char_matches ic p c then match_literal ic ps cs else None)"

text \<open>\<open>int(match.group(1))\<close> for a character of the group \<open>[0-3]\<close>.\<close>

definition class_digit :: "char \<Rightarrow> int option" where
  "class_digit c = map_of [(CHR ''0'', 0), (CHR ''1'', 1), (CHR ''2'', 2), (CHR ''3'', 3)] c"

text \<open>
  A match that starts at the first character. The starred class and the group share no
  character, so the greedy star with backtracking matches exactly when the first
  character after the run of class characters is in the group.
\<close>

definition match_at :: "re_pattern \<Rightarrow> string \<Rightarrow> int option" where
  "match_at pat s =
     (case match_literal (ignore_case pat) (literal pat) s of
        None \<Rightarrow> None
      | Some rest \<Rightarrow>
          (case dropWhile (separators pat) rest of
             [] \<Rightarrow> None
           | c # cs \<Rightarrow> class_digit c))"

text \<open>\<open>re.search\<close>: the leftmost start position with a match; its group as a number.\<close>

fun re_search :: "re_pattern \<Rightarrow> string \<Rightarrow> int option" where
  "re_search pat [] = match_at pat []"
| "re_search pat (c # cs) =
     (case match_at pat (c # cs) of
        Some score \<Rightarrow> Some score
      | None \<Rightarrow> re_search pat cs)"

text \<open>
  The expressions of the two element strategies (case-sensitive) and the
  \<open>mes_patterns\<close> list of the body-text scan (with \<open>re.IGNORECASE\<close>), in the order
  of the source.
\<close>

definition colon_or_space :: "char \<Rightarrow> bool" where
  "colon_or_space c \<longleftrightarrow> c = CHR '':'' \<or> py_isspace c"

definition card_pattern :: re_pattern where
  "card_pattern = \<lparr>literal = ''Score:'', separators = py_isspace, ignore_case = False\<rparr>"

definition sidebar_pattern :: re_pattern where
  "sidebar_pattern = \<lparr>literal = ''MES'', separators = py_isspace, ignore_case = False\<rparr>"

definition mes_patterns :: "re_pattern list" where
  "mes_patterns =
     [\<lparr>literal = ''ColonoScan MES Score:'', separators = py_isspace, ignore_case = True\<rparr>,
      \<lparr>literal = ''Prediction: MES'', separators = py_isspace, ignore_case = True\<rparr>,
      \<lparr>literal = ''MES Score:'', separators = py_isspace, ignore_case = True\<rparr>,
      \<lparr>literal = ''MES'', separators = colon_or_space, ignore_case = True\<rparr>,
      \<lparr>literal = ''Score'', separators = colon_or_space, ignore_case = True\<rparr>]"

text \<open>
  An element the driver found: \<open>own_text\<close> is what the XPath test
  \<open>contains(text(), ...)\<close> reads (its first text node), \<open>element_text\<close> is
  \<open>element.text\<close>. The driver answers the two kinds of query the function makes, or
  raises.
\<close>

record element =
  own_text :: string
  element_text :: string

record driver =
  find_elements_by_text :: "string \<Rightarrow> py_exception + element list"
  body_text :: "py_exception + string"

text \<open>The \<open>for element in ...\<close> loops: the first element whose stripped text matches.\<close>

fun first_in_elements :: "re_pattern \<Rightarrow> element list \<Rightarrow> int option" where
  "first_in_elements pat [] = None"
| "first_in_elements pat (e # es) =
     (case re_search pat (strip (element_text e)) of
        Some score \<Rightarrow> Some score
      | None \<Rightarrow> first_in_elements pat es)"

text \<open>The \<open>for pattern in mes_patterns\<close> loop: the first pattern that matches.\<close>

fun first_pattern :: "re_pattern list \<Rightarrow> string \<Rightarrow> int option" where
  "first_pattern [] page_text = None"
| "first_pattern (pat # pats) page_text =
     (case re_search pat page_text of
        Some mes_value \<Rightarrow> Some mes_value
      | None \<Rightarrow> first_pattern pats page_text)"

text \<open>The outermost \<open>except Exception\<close>: the function returns \<open>None\<close>.\<close>

definition outer_handler :: "py_exception \<Rightarrow> py_exception + int option" where
  "outer_handler e = (if is_Exception e then Inr None else Inl e)"

text \<open>The scan of the text of the \<open>body\<close> element, and the final \<open>return None\<close>.\<close>

definition body_scan :: "driver \<Rightarrow> py_exception + int option" where
  "body_scan d =
     (case body_text d of
        Inl e \<Rightarrow> outer_handler e
      | Inr page_text \<Rightarrow> Inr (first_pattern mes_patterns page_text))"

text \<open>
  Strategy 2. Its handler \<open>except NoSuchElementException:\<close> (line 198) has no body in
  the source, and the scan of the body text follows it one level further out. The model
  reads the handler as empty, so that the scan follows strategy 2 whenever strategy 2
  returned nothing; every other exception reaches the outermost handler.
\<close>

definition strategy_2 :: "driver \<Rightarrow> py_exception + int option" where
  "strategy_2 d =
     (case find_elements_by_text d ''Prediction: MES'' of
        Inl (NoSuchElementException msg) \<Rightarrow> body_scan d
      | Inl e \<Rightarrow> outer_handler e
      | Inr sidebar_elements \<Rightarrow>
          (case first_in_elements sidebar_pattern sidebar_elements of
             Some score \<Rightarrow> Inr (Some score)
           | None \<Rightarrow> body_scan d))"

text \<open>
  \<open>extract_mes_classification\<close>: strategy 1 on the elements of the result card, whose
  exceptions are logged and dropped, then strategy 2, then the body text.
\<close>

definition extract_mes_classification :: "driver \<Rightarrow> py_exception + int option" where
  "extract_mes_classification d =
     (case find_elements_by_text d ''ColonoScan MES Score:'' of
        Inl e \<Rightarrow> (if is_Exception e then strategy_2 d else Inl e)
      | Inr score_elements \<Rightarrow>
          (case first_in_elements card_pattern score_elements of
             Some score \<Rightarrow> Inr (Some score)
           | None \<Rightarrow> strategy_2 d))"

text \<open>
  A page as a snapshot: its elements in document order and the text of its body. Its
  driver never raises; \<open>find_elements\<close> keeps the elements whose own text contains the
  literal of the XPath test.
\<close>

fun contains :: "string \<Rightarrow> string \<Rightarrow> bool" where
  "contains lit [] = (lit = [])"
| "contains lit (c # cs) = (match_literal False lit (c # cs) \<noteq> None \<or> contains lit cs)"

record page =
  elements :: "element list"
  body :: string

definition page_driver :: "page \<Rightarrow> driver" where
  "page_driver p =
     \<lparr> find_elements_by_text = (\<lambda>lit. Inr (filter (\<lambda>e. contains lit (own_text e)) (elements p))),
       body_text = Inr (body p) \<rparr>"

section \<open>The single trial of the session driver\<close>

text \<open>\<open>PROCESSING_TIMEOUT\<close> of config.py: seconds to wait for a classification result.\<close>

definition PROCESSING_TIMEOUT :: nat where
  "PROCESSING_TIMEOUT = 60"

text \<open>
  Modelled from the spec: the operations of the session driver that a trial uses, as
  section 4.2 lists them, over the state \<open>'w\<close> of the browser session and the clock.
  \<open>tester.test_single_image\<close> is called by run_tests.py, but colonoscopy_tester.py
  defines no such method, so the trial itself is not in the sources.
\<close>

record 'w session_driver =
  upload :: "string \<Rightarrow> 'w \<Rightarrow> bool \<times> 'w"
  awaitResult :: "nat \<Rightarrow> 'w \<Rightarrow> bool \<times> 'w"
  extractClassification :: "'w \<Rightarrow> int option \<times> 'w"
  wall_clock :: "'w \<Rightarrow> real"

text \<open>
  Modelled from the spec: \<open>runSingleTrial\<close> composes \<open>upload\<close>, then
  \<open>awaitResult\<close>, then \<open>extractClassification\<close>, measures the wall-clock time
  elapsed across the whole sequence, and succeeds when upload and awaitResult both
  succeeded. The result is the triple the loop of run_tests.py unpacks.
\<close>

definition runSingleTrial ::
  "'w session_driver \<Rightarrow> string \<Rightarrow> 'w \<Rightarrow> (int option \<times> real \<times> bool) \<times> 'w" where
  "runSingleTrial d path w0 =
     (case upload d path w0 of
        (up, w1) \<Rightarrow>
          (case awaitResult d PROCESSING_TIMEOUT w1 of
             (ready, w2) \<Rightarrow>
               (case extractClassification d w2 of
                  (pred, w3) \<Rightarrow>
                    ((pred, wall_clock d w3 - wall_clock d w0, up \<and> ready), w3))))"

text \<open>An environment of the loop whose \<open>test_single_image\<close> is that trial.\<close>

definition trial_env :: "'w session_driver \<Rightarrow> 'w tester_env \<Rightarrow> 'w tester_env" where
  "trial_env d env =
     env\<lparr>test_single_image :=
           (\<lambda>path w. case runSingleTrial d path w of (out, w') \<Rightarrow> (Inr out, w'))\<rparr>"

section \<open>Pages used in the statements about the extraction\<close>

text \<open>
  A card element whose text holds a bare score before the labelled one; the same text on
  a page without elements; and a page with the bare score and the card in two elements.
\<close>

definition crowded_card :: page where
  "crowded_card =
     \<lparr> elements = [\<lparr>own_text = ''Score: 2 ColonoScan MES Score: 3'',
                     element_text = ''Score: 2 ColonoScan MES Score: 3''\<rparr>],
       body = ''Score: 2 ColonoScan MES Score: 3'' \<rparr>"

definition plain_page :: page where
  "plain_page = \<lparr> elements = [], body = ''Score: 2 ColonoScan MES Score: 3'' \<rparr>"

definition usual_page :: page where
  "usual_page =
     \<lparr> elements = [\<lparr>own_text = ''Score: 2'', element_text = ''Score: 2''\<rparr>,
                   \<lparr>own_text = ''ColonoScan MES Score: 3'', element_text = '' ColonoScan MES Score: 3 ''\<rparr>],
       body = ''Score: 2 ColonoScan MES Score: 3'' \<rparr>"



section \<open>Notions used in the statements about the orchestrator\<close>

text \<open>No call that reaches outside the program raises.\<close>

definition quiet :: "'w tester_env \<Rightarrow> bool" where
  "quiet env \<longleftrightarrow>
     (\<forall>p w. \<exists>r. fst (test_single_image env p w) = Inr r)
     \<and> (\<forall>p w. fst (save_screenshot env p w) = None)
     \<and> (\<forall>w. fst (reset_for_next_image env w) = None)
     \<and> (\<forall>p rows w. fst (write_csv env p rows w) = None)"

text \<open>
  The intermediate files due between the processed counts \<open>i\<close> (exclusive) and
  \<open>j\<close> (inclusive) for batch size \<open>b\<close>, each with its number of rows.
\<close>

definition flush_points :: "int \<Rightarrow> nat \<Rightarrow> nat \<Rightarrow> (string \<times> nat) list" where
  "flush_points b i j =
     map (\<lambda>k. (intermediate_name (int k), k)) (filter (\<lambda>k. int k mod b = 0) [Suc i..<Suc j])"

text \<open>The dictionary \<open>add_result\<close> appends, and the one recorded for a returned trial.\<close>

definition make_result ::
  "string \<Rightarrow> int \<Rightarrow> int option \<Rightarrow> real \<Rightarrow> bool \<Rightarrow> string \<Rightarrow> result" where
  "make_result path gt pred time ok msg =
     \<lparr> image_path = path, image_name = path_name path, ground_truth = gt, predicted = pred,
       processing_time = time, success = ok,
       correct = (case pred of None \<Rightarrow> False | Some p \<Rightarrow> p = gt), error = msg \<rparr>"

definition trial_row :: "string \<Rightarrow> int \<Rightarrow> int option \<Rightarrow> real \<Rightarrow> bool \<Rightarrow> result" where
  "trial_row path gt pred time ok =
     (if ok then make_result path gt pred time True []
      else make_result path gt None time False ''Failed to process image'')"

text \<open>
  Example environments: one where every trial succeeds, one where the trial of the first
  image raises, and one where every trial raises an exception without text.
\<close>

definition steady_env :: "unit tester_env" where
  "steady_env =
     \<lparr> test_single_image = (\<lambda>p w. (Inr (Some 1, 3, True), w)),
       save_screenshot = (\<lambda>p w. (None, w)),
       reset_for_next_image = (\<lambda>w. (None, w)),
       write_csv = (\<lambda>p rows w. (None, w)) \<rparr>"

definition five_images :: "(string \<times> int) list" where
  "five_images =
     [(''/data/MES 0/a.jpg'', 0), (''/data/MES 1/b.jpg'', 1), (''/data/MES 1/c.jpg'', 1),
      (''/data/MES 2/d.jpg'', 2), (''/data/MES 3/e.jpg'', 3)]"

definition two_args :: run_args where
  "two_args = \<lparr>output_arg = ''out'', batch_size_arg = 2\<rparr>"

definition faulty_env :: "unit tester_env" where
  "faulty_env =
     \<lparr> test_single_image =
         (\<lambda>p w. if p = ''/data/MES 0/a.jpg'' then (Inl (Exception ''no such window''), w)
                 else (Inr (Some 1, 3, True), w)),
       save_screenshot = (\<lambda>p w. (None, w)),
       reset_for_next_image = (\<lambda>w. (None, w)),
       write_csv = (\<lambda>p rows w. (None, w)) \<rparr>"

definition mute_env :: "unit tester_env" where
  "mute_env =
     \<lparr> test_single_image = (\<lambda>p w. (Inl (Exception []), w)),
       save_screenshot = (\<lambda>p w. (None, w)),
       reset_for_next_image = (\<lambda>w. (None, w)),
       write_csv = (\<lambda>p rows w. (None, w)) \<rparr>"

definition slow_driver :: "real session_driver" where
  "slow_driver =
     \<lparr> upload = (\<lambda>path w. (True, w + 2)),
       awaitResult = (\<lambda>timeout w. (False, w + real timeout)),
       extractClassification = (\<lambda>w. (Some 2, w + 1)),
       wall_clock = (\<lambda>w. w) \<rparr>"

section \<open>Notions used in the statements about the analyzer\<close>

text \<open>The successful subset: outcomes that succeeded and carry a prediction.\<close>

definition successful_subset :: "ResultsAnalyzer \<Rightarrow> result list" where
  "successful_subset a = filter (\<lambda>r. success r \<and> predicted r \<noteq> None) (results a)"

text \<open>
  The share of outcomes whose prediction equals the true label, 0 for no outcomes.
\<close>

definition share_correct :: "result list \<Rightarrow> real" where
  "share_correct rs =
     (if rs = [] then 0
      else real (length (filter (\<lambda>r. predicted r = Some (ground_truth r)) rs)) / real (length rs))"

text \<open>What one round of the per-class loop stores for a class.\<close>

definition class_accuracy :: "result list \<Rightarrow> int \<Rightarrow> real" where
  "class_accuracy rs c =
     (let class_results = filter (\<lambda>r. ground_truth r = c) rs
      in if class_results = [] then 0
         else real (length (filter correct class_results)) / real (length class_results))"

text \<open>The times of the outcomes marked as succeeded, with or without a prediction.\<close>

definition successful_times :: "ResultsAnalyzer \<Rightarrow> real list" where
  "successful_times a = map processing_time (filter success (results a))"

text \<open>Example result sets.\<close>

definition mixed_outcomes :: "outcome list" where
  "mixed_outcomes =
     [(''/data/0/a.jpg'', 0, None, 100, False, ''Failed to process image''),
      (''/data/1/b.jpg'', 1, Some 1, 2, True, []),
      (''/data/2/c.jpg'', 2, None, 4, True, [])]"

definition three_outcomes :: "outcome list" where
  "three_outcomes =
     [(''/data/1/a.jpg'', 1, Some 1, 2, True, ''''),
      (''/data/1/b.jpg'', 1, Some 2, 3, True, ''''),
      (''/data/2/c.jpg'', 2, Some 2, 4, True, '''')]"

definition failed_outcomes :: "outcome list" where
  "failed_outcomes =
     [(''/data/1/a.jpg'', 1, None, 60, False, ''Failed to process image''),
      (''/data/2/b.jpg'', 2, None, 0, False, ''no such element'')]"

section \<open>Shapes of dataset trees used in the statements\<close>

text \<open>What one class contributes to the image list when its entry can be listed.\<close>

definition class_part :: "string \<Rightarrow> fsnode \<Rightarrow> string list \<Rightarrow> int \<Rightarrow> (string \<times> int) list" where
  "class_part dir tree exts c =
     (case first_existing tree (possible_names c) of
        Some (name, Dir entries) \<Rightarrow> class_images (path_join dir name) exts c entries
      | _ \<Rightarrow> [])"

text \<open>The entry a class resolves to, if any, is a directory.\<close>

definition listable :: "fsnode \<Rightarrow> int \<Rightarrow> bool" where
  "listable tree c =
     (case first_existing tree (possible_names c) of
        Some (name, File) \<Rightarrow> False
      | _ \<Rightarrow> True)"

text \<open>
  A class resolves to a directory of regular files, \<open>N\<close> of them with an extension
  from \<open>exts\<close> and one with another extension.
\<close>

definition class_dir_with :: "nat \<Rightarrow> string list \<Rightarrow> fsnode \<Rightarrow> int \<Rightarrow> bool" where
  "class_dir_with N exts tree c =
     (case first_existing tree (possible_names c) of
        Some (name, Dir entries) \<Rightarrow>
          list_all (\<lambda>(fname, node). is_file node) entries
          \<and> length (filter (\<lambda>(fname, node). suffix fname \<in> set exts) entries) = N
          \<and> length (filter (\<lambda>(fname, node). suffix fname \<notin> set exts) entries) = 1
      | _ \<Rightarrow> False)"

text \<open>
  A dataset with one recognised image per class; the second file of each class has an
  extension outside the default list (\<open>.Jpg\<close> differs from \<open>.jpg\<close> and \<open>.JPG\<close>).
\<close>

definition example_tree :: fsnode where
  "example_tree =
     Dir [(''MES 0'', Dir [(''a.jpg'', File), (''a.Jpg'', File)]),
          (''MES1'', Dir [(''notes.txt'', File), (''b.PNG'', File)]),
          (''2'', Dir [(''c.jpeg'', File), (''README'', File)]),
          (''MES 3'', Dir [(''d.png'', File), (''d.gif'', File)])]"

section \<open>Printing the class labels\<close>

lemma str_int_digits [simp]:
  "str_int 0 = ''0''" "str_int 1 = ''1''" "str_int 2 = ''2''" "str_int 3 = ''3''"
  by (simp_all add: str_int_def str_nat.simps digit_char_def)

section \<open>Properties of the results analyzer\<close>

lemma accuracy_key_simps [simp]:
  "accuracy_key 0 = ''MES_0_accuracy''" "accuracy_key 1 = ''MES_1_accuracy''"
  "accuracy_key 2 = ''MES_2_accuracy''" "accuracy_key 3 = ''MES_3_accuracy''"
  by (simp_all add: accuracy_key_def)

lemma map_of_dict_set [simp]:
  "map_of (dict_set d k v) = (map_of d)(k \<mapsto> v)"
  by (induction d k v rule: dict_set.induct) auto

lemma results_fold_add:
  "results (fold (\<lambda>(path, gt, pred, time, ok, msg) a. add_result a path gt pred time ok msg) outs a)
     = results a @
       map (\<lambda>(path, gt, pred, time, ok, msg).
              \<lparr> image_path = path, image_name = path_name path, ground_truth = gt,
                predicted = pred, processing_time = time, success = ok,
                correct = (case pred of None \<Rightarrow> False | Some p \<Rightarrow> p = gt),
                error = msg \<rparr>) outs"
proof (induction outs arbitrary: a)
  case Nil
  then show ?case by simp
next
  case (Cons out outs)
  obtain path gt pred time ok msg where "out = (path, gt, pred, time, ok, msg)"
    by (cases out)
  then show ?case using Cons by (simp add: add_result_def)
qed

lemma recorded_correct:
  "r \<in> set (results (record_all dir outs)) \<Longrightarrow>
   correct r = (predicted r = Some (ground_truth r))"
  by (auto simp: record_all_def results_fold_add init_analyzer_def split: option.splits)

lemma per_class_loop_fold:
  "per_class_loop rs cs acc
     = Inr (fold (\<lambda>c d. dict_set d (accuracy_key c) (PyFloat (class_accuracy rs c))) cs acc)"
  by (induction cs arbitrary: acc) (simp_all add: Let_def py_truediv_def class_accuracy_def)

lemma accuracy_score_share:
  assumes "rs \<noteq> []"
  shows "accuracy_score (map ground_truth rs) (map (\<lambda>r. the (predicted r)) rs)
           = Inr (real (length (filter (\<lambda>r. ground_truth r = the (predicted r)) rs))
                  / real (length rs))"
proof -
  have "length (filter (\<lambda>(t, p). t = p) (zip (map ground_truth rs) (map (\<lambda>r. the (predicted r)) rs)))
          = length (filter (\<lambda>r. ground_truth r = the (predicted r)) rs)"
    by (induction rs) auto
  then show ?thesis using assms by (simp add: accuracy_score_def)
qed

lemma class_accuracy_recorded:
  assumes "set rs \<subseteq> set (results (record_all dir outs))"
  shows "class_accuracy rs c = share_correct (filter (\<lambda>r. ground_truth r = c) rs)"
proof -
  let ?cls = "filter (\<lambda>r. ground_truth r = c) rs"
  have "filter correct ?cls = filter (\<lambda>r. predicted r = Some (ground_truth r)) ?cls"
    using assms by (intro filter_cong refl) (auto dest!: recorded_correct)
  then show ?thesis by (simp add: class_accuracy_def share_correct_def Let_def)
qed

lemma overall_share:
  assumes "\<forall>r \<in> set rs. predicted r \<noteq> None" and "rs \<noteq> []"
  shows "accuracy_score (map ground_truth rs) (map (\<lambda>r. the (predicted r)) rs)
           = Inr (share_correct rs)"
proof -
  have "filter (\<lambda>r. ground_truth r = the (predicted r)) rs
          = filter (\<lambda>r. predicted r = Some (ground_truth r)) rs"
    using assms(1) by (intro filter_cong refl) auto
  then show ?thesis using accuracy_score_share [OF assms(2)] assms(2)
    by (simp add: share_correct_def)
qed

text \<open>
  C3. On a recorded result set whose successful subset (succeeded, prediction present)
  is not empty, \<open>calculate_accuracy_metrics\<close> returns a dictionary whose overall
  accuracy is the number of outcomes of that subset with the prediction equal to the true
  label, divided by the size of the subset; the accuracy of class \<open>c\<close> is the same
  share among the outcomes of the subset with true label \<open>c\<close>, and 0 when there are
  none. For the outcomes (label 1, predicted 1), (label 1, predicted 2),
  (label 2, predicted 2) this gives 2/3 overall, 1/2 for class 1, 1 for class 2 and 0 for
  the classes 0 and 3.
\<close>

theorem accuracy_metrics_shares:
  assumes "successful_subset (record_all dir outs) \<noteq> []"
  shows "\<exists>metrics. calculate_accuracy_metrics (record_all dir outs) = Inr metrics
           \<and> map_of metrics ''overall_accuracy''
               = Some (PyFloat (share_correct (successful_subset (record_all dir outs))))
           \<and> (\<forall>c \<in> {0, 1, 2, 3}.
                 map_of metrics (accuracy_key c)
                   = Some (PyFloat (share_correct
                        (filter (\<lambda>r. ground_truth r = c)
                                (successful_subset (record_all dir outs))))))"
proof -
  let ?a = "record_all dir outs"
  let ?succ = "successful_subset ?a"
  let ?base = "[(''overall_accuracy'', PyFloat (share_correct ?succ)),
                (''total_tested'', PyInt (int (length (results ?a)))),
                (''successful_tests'', PyInt (int (length ?succ))),
                (''failed_tests'', PyInt (int (length (results ?a)) - int (length ?succ)))]"
  let ?pc = "fold (\<lambda>c d. dict_set d (accuracy_key c) (PyFloat (class_accuracy ?succ c)))
               [0, 1, 2, 3] []"
  let ?metrics = "fold (\<lambda>(k, v) d. dict_set d k v) ?pc ?base"
  have sub: "set ?succ \<subseteq> set (results ?a)"
    by (auto simp: successful_subset_def)
  have pred: "\<forall>r \<in> set ?succ. predicted r \<noteq> None"
    by (auto simp: successful_subset_def)
  have overall: "accuracy_score (map ground_truth ?succ) (map (\<lambda>r. the (predicted r)) ?succ)
                   = Inr (share_correct ?succ)"
    using overall_share [OF pred assms] .
  have res: "calculate_accuracy_metrics ?a = Inr ?metrics"
    unfolding calculate_accuracy_metrics_def successful_subset_def [symmetric]
    using assms overall by (simp add: per_class_loop_fold Let_def)
  have cls: "class_accuracy ?succ c
               = share_correct (filter (\<lambda>r. ground_truth r = c) ?succ)" for c
    using class_accuracy_recorded [OF sub] .
  have m0: "map_of ?metrics ''overall_accuracy'' = Some (PyFloat (share_correct ?succ))"
    by simp
  have mc: "\<forall>c \<in> {0, 1, 2, 3}. map_of ?metrics (accuracy_key c)
              = Some (PyFloat (share_correct (filter (\<lambda>r. ground_truth r = c) ?succ)))"
    by (simp add: cls)
  show ?thesis using res m0 mc by blast
qed


lemma results_three_outcomes:
  "results (record_all ''out'' three_outcomes) =
     [\<lparr> image_path = ''/data/1/a.jpg'', image_name = ''a.jpg'', ground_truth = 1,
        predicted = Some 1, processing_time = 2, success = True, correct = True, error = [] \<rparr>,
      \<lparr> image_path = ''/data/1/b.jpg'', image_name = ''b.jpg'', ground_truth = 1,
        predicted = Some 2, processing_time = 3, success = True, correct = False, error = [] \<rparr>,
      \<lparr> image_path = ''/data/2/c.jpg'', image_name = ''c.jpg'', ground_truth = 2,
        predicted = Some 2, processing_time = 4, success = True, correct = True, error = [] \<rparr>]"
  by (simp add: record_all_def three_outcomes_def add_result_def init_analyzer_def path_name_def)

theorem accuracy_metrics_shares_witness:
  "successful_subset (record_all ''out'' three_outcomes) \<noteq> []
   \<and> (\<exists>metrics. calculate_accuracy_metrics (record_all ''out'' three_outcomes) = Inr metrics
          \<and> map_of metrics ''overall_accuracy'' = Some (PyFloat (2 / 3))
          \<and> map_of metrics ''MES_0_accuracy'' = Some (PyFloat 0)
          \<and> map_of metrics ''MES_1_accuracy'' = Some (PyFloat (1 / 2))
          \<and> map_of metrics ''MES_2_accuracy'' = Some (PyFloat 1)
          \<and> map_of metrics ''MES_3_accuracy'' = Some (PyFloat 0))"
proof -
  have h: "successful_subset (record_all ''out'' three_outcomes) \<noteq> []"
    by (simp add: successful_subset_def results_three_outcomes)
  from accuracy_metrics_shares [OF h] obtain metrics where
    m: "calculate_accuracy_metrics (record_all ''out'' three_outcomes) = Inr metrics"
       "map_of metrics ''overall_accuracy''
          = Some (PyFloat (share_correct (successful_subset (record_all ''out'' three_outcomes))))"
       "\<forall>c \<in> {0, 1, 2, 3}. map_of metrics (accuracy_key c)
          = Some (PyFloat (share_correct (filter (\<lambda>r. ground_truth r = c)
                     (successful_subset (record_all ''out'' three_outcomes)))))"
    by blast
  have "map_of metrics ''overall_accuracy'' = Some (PyFloat (2 / 3))"
    using m(2) by (simp add: successful_subset_def results_three_outcomes share_correct_def)
  moreover have "map_of metrics ''MES_0_accuracy'' = Some (PyFloat 0)"
    using m(3) [rule_format, of 0]
    by (simp add: successful_subset_def results_three_outcomes share_correct_def)
  moreover have "map_of metrics ''MES_1_accuracy'' = Some (PyFloat (1 / 2))"
    using m(3) [rule_format, of 1]
    by (simp add: successful_subset_def results_three_outcomes share_correct_def)
  moreover have "map_of metrics ''MES_2_accuracy'' = Some (PyFloat 1)"
    using m(3) [rule_format, of 2]
    by (simp add: successful_subset_def results_three_outcomes share_correct_def)
  moreover have "map_of metrics ''MES_3_accuracy'' = Some (PyFloat 0)"
    using m(3) [rule_format, of 3]
    by (simp add: successful_subset_def results_three_outcomes share_correct_def)
  ultimately show ?thesis using h m(1) by blast
qed

lemma calculate_accuracy_metrics_returns:
  "\<exists>metrics. calculate_accuracy_metrics a = Inr metrics"
  unfolding calculate_accuracy_metrics_def
  by (simp add: per_class_loop_fold accuracy_score_def Let_def)

text \<open>
  C4. When the successful subset is empty, \<open>calculate_accuracy_metrics\<close> returns
  without raising (no division takes place): overall accuracy 0, no successful tests,
  every test failed. The dictionary then holds no per-class entry: none of the four
  keys \<open>MES_c_accuracy\<close> is present.
\<close>

theorem accuracy_metrics_no_success:
  assumes "successful_subset a = []"
  shows "\<exists>metrics. calculate_accuracy_metrics a = Inr metrics
           \<and> map_of metrics ''overall_accuracy'' = Some (PyFloat 0)
           \<and> map_of metrics ''successful_tests'' = Some (PyInt 0)
           \<and> map_of metrics ''failed_tests'' = Some (PyInt (int (length (results a))))
           \<and> (\<forall>c \<in> {0, 1, 2, 3}. map_of metrics (accuracy_key c) = None)"
proof -
  have "calculate_accuracy_metrics a
           = Inr [(''overall_accuracy'', PyFloat 0),
                  (''total_tested'', PyInt (int (length (results a)))),
                  (''successful_tests'', PyInt 0),
                  (''failed_tests'', PyInt (int (length (results a))))]"
    unfolding calculate_accuracy_metrics_def successful_subset_def [symmetric]
    using assms by simp
  then show ?thesis by simp
qed

theorem accuracy_metrics_no_success_witness:
  "successful_subset (record_all ''out'' failed_outcomes) = []
   \<and> (\<exists>metrics. calculate_accuracy_metrics (record_all ''out'' failed_outcomes) = Inr metrics
          \<and> map_of metrics ''overall_accuracy'' = Some (PyFloat 0)
          \<and> map_of metrics ''failed_tests'' = Some (PyInt 2)
          \<and> map_of metrics ''MES_2_accuracy'' = None)"
proof -
  have r: "length (results (record_all ''out'' failed_outcomes)) = 2"
    by (simp add: record_all_def failed_outcomes_def add_result_def init_analyzer_def)
  have h: "successful_subset (record_all ''out'' failed_outcomes) = []"
    by (simp add: successful_subset_def record_all_def failed_outcomes_def add_result_def
                  init_analyzer_def)
  from accuracy_metrics_no_success [OF h] obtain metrics where
    "calculate_accuracy_metrics (record_all ''out'' failed_outcomes) = Inr metrics"
    "map_of metrics ''overall_accuracy'' = Some (PyFloat 0)"
    "map_of metrics ''failed_tests''
       = Some (PyInt (int (length (results (record_all ''out'' failed_outcomes)))))"
    "\<forall>c \<in> {0, 1, 2, 3}. map_of metrics (accuracy_key c) = None"
    by blast
  then show ?thesis using h r by auto
qed

text \<open>
  With two failed outcomes the returned dictionary has four entries and none for a
  class: a lookup of \<open>MES_0_accuracy\<close> finds nothing, not 0.
\<close>

theorem accuracy_metrics_per_class_absent_counterexample:
  "calculate_accuracy_metrics (record_all ''out'' failed_outcomes)
     = Inr [(''overall_accuracy'', PyFloat 0), (''total_tested'', PyInt 2),
            (''successful_tests'', PyInt 0), (''failed_tests'', PyInt 2)]
   \<and> map_of [(''overall_accuracy'', PyFloat 0), (''total_tested'', PyInt 2),
             (''successful_tests'', PyInt 0), (''failed_tests'', PyInt (2::int))]
            ''MES_0_accuracy'' = None"
  by (simp add: calculate_accuracy_metrics_def record_all_def failed_outcomes_def add_result_def
                init_analyzer_def)


lemma np_min_Min: "xs \<noteq> [] \<Longrightarrow> np_min xs = Min (set xs)"
proof (cases xs)
  case Nil
  assume "xs \<noteq> []"
  then show ?thesis using Nil by simp
next
  case (Cons x rest)
  show ?thesis using Min.set_eq_fold [of x rest] by (simp add: Cons np_min_def)
qed

lemma np_max_Max: "xs \<noteq> [] \<Longrightarrow> np_max xs = Max (set xs)"
proof (cases xs)
  case Nil
  assume "xs \<noteq> []"
  then show ?thesis using Nil by simp
next
  case (Cons x rest)
  show ?thesis using Max.set_eq_fold [of x rest] by (simp add: Cons np_max_def)
qed

text \<open>
  C5. \<open>calculate_timing_statistics\<close>: \<open>total_time\<close> is the sum of the processing
  times of all outcomes, failed ones included; when some outcome succeeded, the mean,
  median, minimum, maximum and (population) standard deviation are those of the times of
  the outcomes marked as succeeded only.
\<close>

theorem timing_statistics_sources:
  "map_of (calculate_timing_statistics a) ''total_time''
     = Some (\<Sum>r \<leftarrow> results a. processing_time r)
   \<and> (successful_times a \<noteq> [] \<longrightarrow>
        map_of (calculate_timing_statistics a) ''mean_time''
          = Some (sum_list (successful_times a) / real (length (successful_times a)))
        \<and> map_of (calculate_timing_statistics a) ''median_time''
          = Some (np_median (successful_times a))
        \<and> map_of (calculate_timing_statistics a) ''min_time''
          = Some (Min (set (successful_times a)))
        \<and> map_of (calculate_timing_statistics a) ''max_time''
          = Some (Max (set (successful_times a)))
        \<and> map_of (calculate_timing_statistics a) ''std_time''
          = Some (sqrt ((\<Sum>t \<leftarrow> successful_times a.
                           (t - sum_list (successful_times a) / real (length (successful_times a)))\<^sup>2)
                        / real (length (successful_times a)))))"
proof (intro conjI impI)
  show "map_of (calculate_timing_statistics a) ''total_time''
          = Some (\<Sum>r \<leftarrow> results a. processing_time r)"
    by (simp add: calculate_timing_statistics_def Let_def)
next
  assume ne: "successful_times a \<noteq> []"
  have stats: "calculate_timing_statistics a =
           [(''mean_time'', np_mean (successful_times a)),
            (''median_time'', np_median (successful_times a)),
            (''min_time'', np_min (successful_times a)),
            (''max_time'', np_max (successful_times a)),
            (''std_time'', np_std (successful_times a)),
            (''total_time'', sum_list (map processing_time (results a)))]"
    unfolding calculate_timing_statistics_def successful_times_def [symmetric]
    using ne by (simp add: Let_def)
  show "map_of (calculate_timing_statistics a) ''mean_time''
          = Some (sum_list (successful_times a) / real (length (successful_times a)))"
    by (simp add: stats np_mean_def)
  show "map_of (calculate_timing_statistics a) ''median_time''
          = Some (np_median (successful_times a))"
    by (simp add: stats)
  show "map_of (calculate_timing_statistics a) ''min_time''
          = Some (Min (set (successful_times a)))"
    by (simp add: stats np_min_Min [OF ne])
  show "map_of (calculate_timing_statistics a) ''max_time''
          = Some (Max (set (successful_times a)))"
    by (simp add: stats np_max_Max [OF ne])
  show "map_of (calculate_timing_statistics a) ''std_time''
          = Some (sqrt ((\<Sum>t \<leftarrow> successful_times a.
                           (t - sum_list (successful_times a) / real (length (successful_times a)))\<^sup>2)
                        / real (length (successful_times a))))"
    by (simp add: stats np_std_def np_mean_def)
qed

lemma successful_times_mixed:
  "successful_times (record_all ''out'' mixed_outcomes) = [2, 4]"
  by (simp add: successful_times_def record_all_def mixed_outcomes_def add_result_def
                init_analyzer_def)

lemma total_mixed:
  "(\<Sum>r \<leftarrow> results (record_all ''out'' mixed_outcomes). processing_time r) = 106"
  by (simp add: record_all_def mixed_outcomes_def add_result_def init_analyzer_def)

theorem timing_statistics_sources_witness:
  "successful_times (record_all ''out'' mixed_outcomes) \<noteq> []
   \<and> map_of (calculate_timing_statistics (record_all ''out'' mixed_outcomes)) ''total_time'' = Some 106
   \<and> map_of (calculate_timing_statistics (record_all ''out'' mixed_outcomes)) ''mean_time'' = Some 3
   \<and> map_of (calculate_timing_statistics (record_all ''out'' mixed_outcomes)) ''median_time'' = Some 3
   \<and> map_of (calculate_timing_statistics (record_all ''out'' mixed_outcomes)) ''min_time'' = Some 2
   \<and> map_of (calculate_timing_statistics (record_all ''out'' mixed_outcomes)) ''max_time'' = Some 4
   \<and> map_of (calculate_timing_statistics (record_all ''out'' mixed_outcomes)) ''std_time'' = Some 1"
proof -
  have h: "successful_times (record_all ''out'' mixed_outcomes) \<noteq> []"
    by (simp add: successful_times_mixed)
  have med: "np_median [2, 4] = 3"
    by (simp add: np_median_def)
  show ?thesis
    using timing_statistics_sources [of "record_all ''out'' mixed_outcomes"] h
    by (simp add: successful_times_mixed total_mixed med power2_eq_square)
qed


section \<open>Properties of the dataset manager\<close>

lemma possible_names_simps [simp]:
  "possible_names 0 = [''MES 0'', ''MES0'', ''0'']"
  "possible_names 1 = [''MES 1'', ''MES1'', ''1'']"
  "possible_names 2 = [''MES 2'', ''MES2'', ''2'']"
  "possible_names 3 = [''MES 3'', ''MES3'', ''3'']"
  by (simp_all add: possible_names_def)

lemma load_classes_listable:
  "list_all (listable tree) cs \<Longrightarrow>
   load_classes dir tree exts cs acc = Inr (acc @ concat (map (class_part dir tree exts) cs))"
proof (induction cs arbitrary: acc)
  case Nil
  then show ?case by simp
next
  case (Cons c cs)
  then show ?case
    by (auto simp: listable_def class_part_def split: option.splits fsnode.splits)
qed

lemma class_images_label:
  "(p, l) \<in> set (class_images cp exts c entries) \<Longrightarrow> l = c"
  by (auto simp: class_images_def)

lemma class_part_label:
  "(p, l) \<in> set (class_part dir tree exts c) \<Longrightarrow> l = c"
  by (auto simp: class_part_def dest: class_images_label split: option.splits fsnode.splits)

lemma distribution_fold:
  "fold (\<lambda>(p, class_label) distribution.
             case distribution class_label of
               Some n \<Rightarrow> distribution(class_label \<mapsto> n + 1)
             | None \<Rightarrow> distribution) xs d c
   = (case d c of Some n \<Rightarrow> Some (n + length (filter (\<lambda>(p, l). l = c) xs)) | None \<Rightarrow> None)"
proof (induction xs arbitrary: d)
  case Nil
  then show ?case by (simp split: option.splits)
next
  case (Cons x xs)
  obtain p l where x: "x = (p, l)" by (cases x)
  show ?case
    by (simp add: x Cons.IH split: option.splits)
qed

lemma get_class_distribution_count:
  "c \<in> {0, 1, 2, 3} \<Longrightarrow>
   get_class_distribution m c = Some (length (filter (\<lambda>(p, l). l = c) (images m)))"
  by (auto simp: get_class_distribution_def distribution_fold)

lemma get_class_distribution_dom:
  "dom (get_class_distribution m) = {0, 1, 2, 3}"
  by (auto simp: get_class_distribution_def distribution_fold dom_def split: option.splits if_splits)

lemma load_dataset_listable:
  assumes "list_all (listable tree) [0, 1, 2, 3]"
  shows "load_dataset (Some tree) m =
           Inr (concat (map (class_part (base_dir m) tree (supported_extensions m)) [0, 1, 2, 3]),
                m\<lparr>images := concat (map (class_part (base_dir m) tree (supported_extensions m)) [0, 1, 2, 3]),
                  total_count := length (concat (map (class_part (base_dir m) tree (supported_extensions m)) [0, 1, 2, 3]))\<rparr>)"
  unfolding load_dataset_def
  by (simp only: load_classes_listable [OF assms] option.case sum.case append_Nil)

lemma count_label_concat:
  "length (filter (\<lambda>(p, l). l = c) (concat (map (class_part dir tree exts) cs)))
     = (\<Sum>d \<leftarrow> cs. if d = c then length (class_part dir tree exts d) else 0)"
proof (induction cs)
  case Nil
  then show ?case by simp
next
  case (Cons d cs)
  have "filter (\<lambda>(p, l). l = c) (class_part dir tree exts d)
          = (if d = c then class_part dir tree exts d else [])"
    by (auto simp: filter_empty_conv filter_id_conv dest: class_part_label)
  then show ?case using Cons by simp
qed

lemma class_dir_with_resolved:
  assumes "class_dir_with N exts tree c"
  shows "\<exists>name entries.
           first_existing tree (possible_names c) = Some (name, Dir entries)
           \<and> list_all (\<lambda>(fname, node). is_file node) entries
           \<and> length (filter (\<lambda>(fname, node). suffix fname \<in> set exts) entries) = N"
proof (cases "first_existing tree (possible_names c)")
  case None
  then show ?thesis using assms by (simp add: class_dir_with_def)
next
  case (Some r)
  obtain name node where r: "r = (name, node)" by (cases r)
  show ?thesis
  proof (cases node)
    case File
    then show ?thesis using assms Some r by (simp add: class_dir_with_def)
  next
    case (Dir entries)
    then show ?thesis using assms Some r by (simp add: class_dir_with_def)
  qed
qed

lemma class_dir_with_listable:
  "class_dir_with N exts tree c \<Longrightarrow> listable tree c"
  by (auto simp: listable_def dest!: class_dir_with_resolved)

lemma class_dir_with_length:
  assumes "class_dir_with N exts tree c"
  shows "length (class_part dir tree exts c) = N"
proof -
  from class_dir_with_resolved [OF assms] obtain name entries where
    r: "first_existing tree (possible_names c) = Some (name, Dir entries)"
    and f: "list_all (\<lambda>(fname, node). is_file node) entries"
    and n: "length (filter (\<lambda>(fname, node). suffix fname \<in> set exts) entries) = N"
    by blast
  have "filter (\<lambda>(fname, node). is_file node \<and> suffix fname \<in> set exts) entries
          = filter (\<lambda>(fname, node). suffix fname \<in> set exts) entries"
    using f by (intro filter_cong) (auto simp: list_all_iff)
  then show ?thesis using r n by (simp add: class_part_def class_images_def)
qed

lemma class_part_resolved:
  assumes "x \<in> set (class_part dir tree exts c)"
  shows "\<exists>name entries.
           first_existing tree (possible_names c) = Some (name, Dir entries)
           \<and> x \<in> set (class_images (path_join dir name) exts c entries)"
proof (cases "first_existing tree (possible_names c)")
  case None
  then show ?thesis using assms by (simp add: class_part_def)
next
  case (Some r)
  obtain name node where r: "r = (name, node)" by (cases r)
  show ?thesis
  proof (cases node)
    case File
    then show ?thesis using assms Some r by (simp add: class_part_def)
  next
    case (Dir entries)
    then show ?thesis using assms Some r by (simp add: class_part_def)
  qed
qed

lemma class_part_origin:
  assumes "(p, l) \<in> set (class_part dir tree exts c)"
  shows "\<exists>name entries fname.
           first_existing tree (possible_names l) = Some (name, Dir entries)
           \<and> (fname, File) \<in> set entries \<and> suffix fname \<in> set exts
           \<and> p = path_join (path_join dir name) fname"
proof -
  have lc: "l = c" using assms by (rule class_part_label)
  from class_part_resolved [OF assms] obtain name entries where
    r: "first_existing tree (possible_names c) = Some (name, Dir entries)"
    and i: "(p, l) \<in> set (class_images (path_join dir name) exts c entries)"
    by blast
  from i obtain fname node where
    e: "(fname, node) \<in> set entries" "is_file node" "suffix fname \<in> set exts"
       "p = path_join (path_join dir name) fname"
    by (auto simp: class_images_def)
  have "node = File" using e(2) by (cases node) auto
  then show ?thesis using e r lc by blast
qed

text \<open>
  C7. \<open>load_dataset\<close> raises \<open>ValueError\<close> when the base directory does not exist.
  When it exists and every class entry that resolves is a directory, \<open>load_dataset\<close>
  returns; a class in 0..3 that resolves under none of the tried names is skipped: no
  returned image carries its label and its count in the class distribution is 0.
\<close>

theorem load_dataset_missing_class:
  "load_dataset None m = Inl (ValueError (''Dataset directory does not exist: '' @ base_dir m))
   \<and> (list_all (listable tree) [0, 1, 2, 3] \<longrightarrow>
        (\<exists>imgs m'. load_dataset (Some tree) m = Inr (imgs, m')
           \<and> (\<forall>c \<in> {0, 1, 2, 3}. first_existing tree (possible_names c) = None \<longrightarrow>
                  (\<forall>(p, l) \<in> set imgs. l \<noteq> c) \<and> get_class_distribution m' c = Some 0)))"
proof (intro conjI impI)
  show "load_dataset None m = Inl (ValueError (''Dataset directory does not exist: '' @ base_dir m))"
    by (simp add: load_dataset_def)
next
  assume ok: "list_all (listable tree) [0, 1, 2, 3]"
  let ?imgs = "concat (map (class_part (base_dir m) tree (supported_extensions m)) [0, 1, 2, 3])"
  let ?m = "m\<lparr>images := ?imgs, total_count := length ?imgs\<rparr>"
  have res: "load_dataset (Some tree) m = Inr (?imgs, ?m)"
    using load_dataset_listable [OF ok] .
  have skip: "(\<forall>(p, l) \<in> set ?imgs. l \<noteq> c) \<and> get_class_distribution ?m c = Some 0"
    if c: "c \<in> {0, 1, 2, 3}" and none: "first_existing tree (possible_names c) = None" for c
  proof -
    have empty: "class_part (base_dir m) tree (supported_extensions m) c = []"
      using none by (simp add: class_part_def)
    have no_label: "\<forall>(p, l) \<in> set ?imgs. l \<noteq> c"
    proof (clarify)
      fix p assume "(p, c) \<in> set ?imgs"
      then obtain d where "(p, c) \<in> set (class_part (base_dir m) tree (supported_extensions m) d)"
        by auto
      then show False using class_part_label empty by fastforce
    qed
    then have "filter (\<lambda>(p, l). l = c) ?imgs = []"
      by (auto simp: filter_empty_conv)
    then have "get_class_distribution ?m c = Some 0"
      using get_class_distribution_count [OF c, of ?m] by simp
    then show ?thesis using no_label by blast
  qed
  show "\<exists>imgs m'. load_dataset (Some tree) m = Inr (imgs, m')
           \<and> (\<forall>c \<in> {0, 1, 2, 3}. first_existing tree (possible_names c) = None \<longrightarrow>
                  (\<forall>(p, l) \<in> set imgs. l \<noteq> c) \<and> get_class_distribution m' c = Some 0)"
    using res skip by blast
qed

theorem load_dataset_missing_class_witness:
  "list_all (listable (Dir [(''MES 0'', Dir [(''a.jpg'', File)]), (''3'', Dir [])])) [0, 1, 2, 3]
   \<and> first_existing (Dir [(''MES 0'', Dir [(''a.jpg'', File)]), (''3'', Dir [])]) (possible_names 2) = None
   \<and> (\<exists>imgs m'. load_dataset (Some (Dir [(''MES 0'', Dir [(''a.jpg'', File)]), (''3'', Dir [])]))
                     (init_manager ''/data'' None) = Inr (imgs, m')
          \<and> (\<forall>(p, l) \<in> set imgs. l \<noteq> 2) \<and> get_class_distribution m' 2 = Some 0)"
proof -
  let ?t = "Dir [(''MES 0'', Dir [(''a.jpg'', File)]), (''3'', Dir [])]"
  have h: "list_all (listable ?t) [0, 1, 2, 3]"
    by (simp add: listable_def)
  have n: "first_existing ?t (possible_names 2) = None"
    by simp
  from load_dataset_missing_class [of "init_manager ''/data'' None" ?t] h
  obtain imgs m' where
    "load_dataset (Some ?t) (init_manager ''/data'' None) = Inr (imgs, m')"
    "\<forall>c \<in> {0, 1, 2, 3}. first_existing ?t (possible_names c) = None \<longrightarrow>
        (\<forall>(p, l) \<in> set imgs. l \<noteq> c) \<and> get_class_distribution m' c = Some 0"
    by blast
  then show ?thesis using h n by blast
qed

text \<open>
  The base directory exists and holds a regular file named \<open>MES 0\<close>: the entry
  exists, so it is taken for the class directory, and listing it raises.
\<close>

theorem load_dataset_file_entry_counterexample:
  "load_dataset (Some (Dir [(''MES 0'', File)])) (init_manager ''/data'' None)
     = Inl (NotADirectoryError ''[Errno 20] Not a directory'')"
  by (simp add: load_dataset_def)

text \<open>
  C8. In a tree where each of the four classes resolves to a directory of regular files,
  \<open>N\<close> with an extension in the supported list and one without, \<open>load_dataset\<close>
  returns exactly \<open>4 * N\<close> images; the class distribution gives \<open>N\<close> per class and
  sums to \<open>4 * N\<close>; every image is a regular file of the directory its label resolves
  to, and its suffix is literally a member of the supported list (so the match is
  case-sensitive).
\<close>

theorem load_dataset_full_tree:
  assumes "list_all (class_dir_with N (supported_extensions m) tree) [0, 1, 2, 3]"
  shows "\<exists>imgs m'. load_dataset (Some tree) m = Inr (imgs, m')
           \<and> length imgs = 4 * N
           \<and> (\<forall>c \<in> {0, 1, 2, 3}. get_class_distribution m' c = Some N)
           \<and> (\<Sum>c \<leftarrow> [0, 1, 2, 3]. the (get_class_distribution m' c)) = 4 * N
           \<and> (\<forall>(p, l) \<in> set imgs. \<exists>name entries fname.
                  first_existing tree (possible_names l) = Some (name, Dir entries)
                  \<and> (fname, File) \<in> set entries
                  \<and> suffix fname \<in> set (supported_extensions m)
                  \<and> p = path_join (path_join (base_dir m) name) fname)"
proof -
  let ?part = "class_part (base_dir m) tree (supported_extensions m)"
  let ?imgs = "concat (map ?part [0, 1, 2, 3])"
  let ?m = "m\<lparr>images := ?imgs, total_count := length ?imgs\<rparr>"
  have each: "class_dir_with N (supported_extensions m) tree c" if "c \<in> {0, 1, 2, 3}" for c
    using assms that by auto
  have "list_all (listable tree) [0, 1, 2, 3]"
    using each [THEN class_dir_with_listable] by simp
  then have res: "load_dataset (Some tree) m = Inr (?imgs, ?m)"
    by (rule load_dataset_listable)
  have len: "length (?part c) = N" if "c \<in> {0, 1, 2, 3}" for c
    using each [OF that] by (rule class_dir_with_length)
  have total: "length ?imgs = 4 * N"
    using len by simp
  have dist: "get_class_distribution ?m c = Some N" if c: "c \<in> {0, 1, 2, 3}" for c
  proof -
    have "length (filter (\<lambda>(p, l). l = c) ?imgs) = N"
      unfolding count_label_concat using c len by auto
    then show ?thesis using get_class_distribution_count [OF c, of ?m] by simp
  qed
  have sum: "(\<Sum>c \<leftarrow> [0, 1, 2, 3]. the (get_class_distribution ?m c)) = 4 * N"
    using dist by simp
  have origin: "\<forall>(p, l) \<in> set ?imgs. \<exists>name entries fname.
                  first_existing tree (possible_names l) = Some (name, Dir entries)
                  \<and> (fname, File) \<in> set entries
                  \<and> suffix fname \<in> set (supported_extensions m)
                  \<and> p = path_join (path_join (base_dir m) name) fname"
  proof (clarify)
    fix p l assume "(p, l) \<in> set ?imgs"
    then obtain c where "(p, l) \<in> set (?part c)" by auto
    then show "\<exists>name entries fname.
                  first_existing tree (possible_names l) = Some (name, Dir entries)
                  \<and> (fname, File) \<in> set entries
                  \<and> suffix fname \<in> set (supported_extensions m)
                  \<and> p = path_join (path_join (base_dir m) name) fname"
      by (rule class_part_origin)
  qed
  show ?thesis using res total dist sum origin by blast
qed

theorem load_dataset_full_tree_witness:
  "list_all (class_dir_with 1 (supported_extensions (init_manager ''/data'' None)) example_tree)
            [0, 1, 2, 3]
   \<and> (\<exists>imgs m'. load_dataset (Some example_tree) (init_manager ''/data'' None) = Inr (imgs, m')
          \<and> length imgs = 4
          \<and> (\<forall>c \<in> {0, 1, 2, 3}. get_class_distribution m' c = Some 1))"
proof -
  have h: "list_all (class_dir_with 1 (supported_extensions (init_manager ''/data'' None)) example_tree)
             [0, 1, 2, 3]"
    by (simp add: class_dir_with_def example_tree_def init_manager_def default_extensions_def
                  suffix_def)
  from load_dataset_full_tree [OF h] show ?thesis using h by auto
qed

lemma load_dataset_example:
  "load_dataset (Some example_tree) (init_manager ''/data'' None)
     = Inr ([(''/data/MES 0/a.jpg'', 0), (''/data/MES1/b.PNG'', 1),
             (''/data/2/c.jpeg'', 2), (''/data/MES 3/d.png'', 3)],
            (init_manager ''/data'' None)
              \<lparr>images := [(''/data/MES 0/a.jpg'', 0), (''/data/MES1/b.PNG'', 1),
                          (''/data/2/c.jpeg'', 2), (''/data/MES 3/d.png'', 3)],
                total_count := 4\<rparr>)"
  by (simp add: load_dataset_def example_tree_def init_manager_def default_extensions_def
                class_images_def suffix_def path_join_def)

lemma concat_slices:
  assumes "0 < b" and "n = length xs"
  shows "concat (map (\<lambda>i. slice xs i (i + b)) (py_range i n b)) = drop i xs"
  using assms
proof (induction i n b rule: py_range.induct)
  case (1 i n step)
  show ?case
  proof (cases "i < n")
    case True
    have IH: "concat (map (\<lambda>i. slice xs i (i + step)) (py_range (i + step) n step))
                = drop (i + step) xs"
      using 1 True by simp
    have unfold: "py_range i n step = i # py_range (i + step) n step"
      using True 1(2) by (subst py_range.simps) simp
    have "take step (drop i xs) @ drop (i + step) xs = drop i xs"
      by (metis add.commute append_take_drop_id drop_drop)
    then show ?thesis
      using IH unfold by (simp add: slice_def)
  next
    case False
    then have "py_range i n step = []"
      by (subst py_range.simps) simp
    then show ?thesis using False 1(3) by simp
  qed
qed

lemma py_range_bound:
  "j \<in> set (py_range i n b) \<Longrightarrow> j < n"
proof (induction i n b rule: py_range.induct)
  case (1 i n step)
  then show ?case
    by (subst (asm) (2) py_range.simps) (auto split: if_splits)
qed

lemma full_slices:
  assumes "0 < b" and "n = length xs"
  shows "Suc k < length (py_range i n b) \<Longrightarrow>
         length (slice xs (py_range i n b ! k) (py_range i n b ! k + b)) = b"
  using assms
proof (induction i n b arbitrary: k rule: py_range.induct)
  case (1 i n step)
  show ?case
  proof (cases "i < n")
    case True
    have unfold: "py_range i n step = i # py_range (i + step) n step"
      using True 1(3) by (subst py_range.simps) simp
    show ?thesis
    proof (cases k)
      case 0
      then have "py_range (i + step) n step \<noteq> []"
        using 1(2) unfold by auto
      then have "i + step < n"
        by (subst (asm) py_range.simps) (auto split: if_splits)
      then show ?thesis using 0 unfold 1(4) by (simp add: slice_def)
    next
      case (Suc k')
      then have "Suc k' < length (py_range (i + step) n step)"
        using 1(2) unfold by simp
      then have "length (slice xs (py_range (i + step) n step ! k')
                     (py_range (i + step) n step ! k' + step)) = step"
        using 1 True by simp
      then show ?thesis using Suc unfold by simp
    qed
  next
    case False
    then have "py_range i n step = []"
      by (subst py_range.simps) simp
    then show ?thesis using 1(2) by simp
  qed
qed

text \<open>
  C10. For a positive batch size, \<open>get_batches\<close> returns batches whose concatenation is
  the image list in its order; every batch but the last holds exactly \<open>batch_size\<close>
  items, and no batch is empty (nor longer than \<open>batch_size\<close>).
\<close>

theorem get_batches_partition:
  assumes "0 < batch_size"
  shows "\<exists>bs. get_batches m batch_size = Inr bs
           \<and> concat bs = images m
           \<and> (\<forall>k. Suc k < length bs \<longrightarrow> int (length (bs ! k)) = batch_size)
           \<and> (\<forall>b \<in> set bs. b \<noteq> [] \<and> int (length b) \<le> batch_size)"
proof -
  let ?b = "nat batch_size"
  let ?r = "py_range 0 (length (images m)) ?b"
  let ?bs = "map (\<lambda>i. slice (images m) i (i + ?b)) ?r"
  have pos: "0 < ?b" using assms by simp
  have 1: "get_batches m batch_size = Inr ?bs"
    using assms by (simp add: get_batches_def)
  have 2: "concat ?bs = images m"
    using concat_slices [OF pos refl, where xs = "images m" and i = 0] by simp
  have 3: "\<forall>k. Suc k < length ?bs \<longrightarrow> int (length (?bs ! k)) = batch_size"
  proof (intro allI impI)
    fix k assume k: "Suc k < length ?bs"
    then have "length (slice (images m) (?r ! k) (?r ! k + ?b)) = ?b"
      using full_slices [OF pos refl, where xs = "images m" and i = 0 and k = k] by simp
    then show "int (length (?bs ! k)) = batch_size"
      using k assms by simp
  qed
  have 4: "\<forall>b \<in> set ?bs. b \<noteq> [] \<and> int (length b) \<le> batch_size"
  proof
    fix b assume "b \<in> set ?bs"
    then obtain j where j: "j \<in> set ?r" and b: "b = slice (images m) j (j + ?b)"
      by auto
    have "j < length (images m)" using py_range_bound [OF j] .
    then show "b \<noteq> [] \<and> int (length b) \<le> batch_size"
      using b pos assms by (auto simp: slice_def)
  qed
  show ?thesis using 1 2 3 4 by blast
qed

theorem get_batches_partition_witness:
  "(0::int) < 2 \<and>
   (\<exists>bs. get_batches
           ((init_manager ''/data'' None)
              \<lparr>images := [(''a'', 0), (''b'', 1), (''c'', 2), (''d'', 3), (''e'', 0)]\<rparr>) 2 = Inr bs
         \<and> concat bs = [(''a'', 0), (''b'', 1), (''c'', 2), (''d'', 3), (''e'', 0)]
         \<and> (\<forall>k. Suc k < length bs \<longrightarrow> int (length (bs ! k)) = 2)
         \<and> (\<forall>b \<in> set bs. b \<noteq> [] \<and> int (length b) \<le> 2))"
  using get_batches_partition
          [of 2 "(init_manager ''/data'' None)
                   \<lparr>images := [(''a'', 0), (''b'', 1), (''c'', 2), (''d'', 3), (''e'', 0)]\<rparr>"]
  by simp

section \<open>Properties of the orchestrator\<close>

lemma save_detailed_results_quiet:
  assumes "quiet env"
  shows "\<exists>s'. save_detailed_results env name s = (s', None)
           \<and> flushes s' = flushes s @ [(name, length (results (analyzer s)))]
           \<and> analyzer s' = analyzer s
           \<and> processed_count s' = processed_count s"
proof -
  obtain r w where c: "write_csv env (path_join (output_dir (analyzer s)) name)
                         (results (analyzer s)) (world s) = (r, w)"
    by (cases "write_csv env (path_join (output_dir (analyzer s)) name)
                 (results (analyzer s)) (world s)")
  have "r = None"
    using assms c unfolding quiet_def by (metis fst_conv)
  then show ?thesis using c by (simp add: save_detailed_results_def)
qed

lemma record_trial_quiet:
  assumes "quiet env"
  shows "\<exists>s'. record_trial env args idx path gt pred time ok s = (s', None)
           \<and> flushes s' = flushes s
           \<and> length (results (analyzer s')) = Suc (length (results (analyzer s)))
           \<and> processed_count s' = processed_count s"
proof (cases ok)
  case True
  then show ?thesis by (simp add: record_trial_def add_result_def)
next
  case False
  let ?s1 = "s\<lparr>failed_count := failed_count s + 1,
               analyzer := add_result (analyzer s) path gt None time False
                             ''Failed to process image''\<rparr>"
  obtain r w where c: "save_screenshot env (screenshot_path args idx path) (world ?s1) = (r, w)"
    by (cases "save_screenshot env (screenshot_path args idx path) (world ?s1)")
  have "r = None"
    using assms c unfolding quiet_def by (metis fst_conv)
  then show ?thesis using c False
    by (simp add: record_trial_def add_result_def SAVE_SCREENSHOTS_ON_ERROR_def Let_def)
qed

lemma try_body_quiet:
  assumes q: "quiet env" and b: "batch_size_arg args \<noteq> 0"
  shows "\<exists>s'. try_body env args n idx img s = (s', None)
           \<and> processed_count s' = processed_count s + 1
           \<and> length (results (analyzer s')) = Suc (length (results (analyzer s)))
           \<and> flushes s' = flushes s @
                (if (processed_count s + 1) mod batch_size_arg args = 0
                 then [(intermediate_name (processed_count s + 1),
                        Suc (length (results (analyzer s))))]
                 else [])"
proof -
  obtain t w where c1: "test_single_image env (fst img) (world s) = (t, w)"
    by (cases "test_single_image env (fst img) (world s)")
  obtain pred time ok where t: "t = Inr (pred, time, ok)"
    using q c1 unfolding quiet_def by (metis fst_conv prod_cases3)
  from record_trial_quiet [OF q] obtain s1 where
    c2: "record_trial env args idx (fst img) (snd img) pred time ok (s\<lparr>world := w\<rparr>) = (s1, None)"
    and f1: "flushes s1 = flushes s"
    and l1: "length (results (analyzer s1)) = Suc (length (results (analyzer s)))"
    and p1: "processed_count s1 = processed_count s"
    by (metis (no_types, lifting) run_state.select_convs run_state.surjective
          run_state.update_convs(5))
  let ?s2 = "s1\<lparr>processed_count := processed_count s1 + 1\<rparr>"
  obtain r w' where c3: "(if int idx < int n - 1 then reset_for_next_image env (world ?s2)
                          else (None, world ?s2)) = (r, w')"
    by (cases "(if int idx < int n - 1 then reset_for_next_image env (world ?s2)
                else (None, world ?s2))")
  have r: "r = None"
    using q c3 unfolding quiet_def by (metis fst_conv)
  let ?s3 = "?s2\<lparr>world := w'\<rparr>"
  show ?thesis
  proof (cases "(processed_count s + 1) mod batch_size_arg args = 0")
    case True
    from save_detailed_results_quiet [OF q, of "intermediate_name (processed_count ?s3)" ?s3]
    obtain s4 where
      c4: "save_detailed_results env (intermediate_name (processed_count ?s3)) ?s3 = (s4, None)"
      and f4: "flushes s4 = flushes ?s3 @ [(intermediate_name (processed_count ?s3),
                                           length (results (analyzer ?s3)))]"
      and a4: "analyzer s4 = analyzer ?s3"
      and p4: "processed_count s4 = processed_count ?s3"
      by blast
    have "try_body env args n idx img s = (s4, None)"
      using c1 t c2 c3 r c4 b True p1 by (simp add: try_body_def Let_def)
    then show ?thesis using f4 a4 p4 f1 l1 p1 True by simp
  next
    case False
    have "try_body env args n idx img s = (?s3, None)"
      using c1 t c2 c3 r b False p1 by (simp add: try_body_def Let_def)
    then show ?thesis using f1 l1 p1 False by simp
  qed
qed


lemma flush_points_step:
  "i < j \<Longrightarrow>
   flush_points b i j
     = (if int (Suc i) mod b = 0 then [(intermediate_name (int (Suc i)), Suc i)] else [])
       @ flush_points b (Suc i) j"
proof -
  assume "i < j"
  then have "[Suc i..<Suc j] = Suc i # [Suc (Suc i)..<Suc j]"
    by (subst upt_rec) simp
  then show ?thesis
    unfolding flush_points_def by (simp del: upt_Suc)
qed

lemma run_loop_quiet:
  assumes q: "quiet env" and b: "batch_size_arg args \<noteq> 0"
  shows "processed_count s = int i \<Longrightarrow> length (results (analyzer s)) = i \<Longrightarrow>
         flushes (run_loop env args n (enumerate_from i imgs) s)
           = flushes s @ flush_points (batch_size_arg args) i (i + length imgs)
         \<and> processed_count (run_loop env args n (enumerate_from i imgs) s) = int (i + length imgs)
         \<and> length (results (analyzer (run_loop env args n (enumerate_from i imgs) s)))
             = i + length imgs"
proof (induction imgs arbitrary: i s)
  case Nil
  then show ?case by (simp add: flush_points_def)
next
  case (Cons img imgs)
  from try_body_quiet [OF q b, of n i img s] obtain s' where
    t: "try_body env args n i img s = (s', None)"
    and p: "processed_count s' = processed_count s + 1"
    and l: "length (results (analyzer s')) = Suc (length (results (analyzer s)))"
    and f: "flushes s' = flushes s @
                (if (processed_count s + 1) mod batch_size_arg args = 0
                 then [(intermediate_name (processed_count s + 1),
                        Suc (length (results (analyzer s))))]
                 else [])"
    by blast
  have p': "processed_count s' = int (Suc i)" using p Cons.prems by simp
  have l': "length (results (analyzer s')) = Suc i" using l Cons.prems by simp
  have step: "run_loop env args n (enumerate_from i (img # imgs)) s
                = run_loop env args n (enumerate_from (Suc i) imgs) s'"
    using t by simp
  have f': "flushes s' = flushes s @
              (if int (Suc i) mod batch_size_arg args = 0
               then [(intermediate_name (int (Suc i)), Suc i)] else [])"
    using f Cons.prems by (simp add: add.commute)
  show ?case
    using Cons.IH [OF p' l'] step f'
          flush_points_step [of i "i + length (img # imgs)" "batch_size_arg args"]
    by simp
qed

text \<open>
  C9. When no call raises and the batch size is positive, the loop writes an intermediate
  detailed-results file exactly after each processed count that the batch size divides,
  holding that many rows; the final report then writes the detailed results once more.
  With batch size 2 and 5 images: after the 2nd and after the 4th image, not after the
  5th, whose row first reaches a file in the final flush.
\<close>

theorem intermediate_flush_points:
  assumes "quiet env" and "0 < batch_size_arg args"
  shows "flushes (run_loop env args (length imgs) (enumerate_from 0 imgs) (initial_state args w))
           = map (\<lambda>k. (intermediate_name (int k), k))
                 (filter (\<lambda>k. int k mod batch_size_arg args = 0) [1..<Suc (length imgs)])
         \<and> flushes (run_images env args imgs w)
           = map (\<lambda>k. (intermediate_name (int k), k))
                 (filter (\<lambda>k. int k mod batch_size_arg args = 0) [1..<Suc (length imgs)])
             @ [(DETAILED_RESULTS_FILE, length imgs)]"
proof -
  let ?init = "initial_state args w"
  let ?s = "run_loop env args (length imgs) (enumerate_from 0 imgs) ?init"
  have b: "batch_size_arg args \<noteq> 0" using assms(2) by simp
  have i0: "processed_count ?init = int 0" "length (results (analyzer ?init)) = 0"
    by (simp_all add: initial_state_def init_analyzer_def)
  from run_loop_quiet [OF assms(1) b i0, where n = "length imgs" and imgs = imgs]
  have loop: "flushes ?s = flush_points (batch_size_arg args) 0 (length imgs)"
    and len: "length (results (analyzer ?s)) = length imgs"
    by (simp_all add: initial_state_def)
  from save_detailed_results_quiet [OF assms(1), of DETAILED_RESULTS_FILE ?s]
  have "flushes (run_images env args imgs w)
          = flushes ?s @ [(DETAILED_RESULTS_FILE, length (results (analyzer ?s)))]"
    by (auto simp: run_images_def)
  then show ?thesis using loop len by (simp add: flush_points_def)
qed

lemma str_int_2_4: "str_int 4 = ''4''"
  by (simp add: str_int_def str_nat.simps digit_char_def)

theorem intermediate_flush_points_witness:
  "quiet steady_env \<and> (0::int) < batch_size_arg \<lparr>output_arg = ''out'', batch_size_arg = 2\<rparr>
   \<and> flushes (run_loop steady_env \<lparr>output_arg = ''out'', batch_size_arg = 2\<rparr> (length five_images)
               (enumerate_from 0 five_images)
               (initial_state \<lparr>output_arg = ''out'', batch_size_arg = 2\<rparr> ()))
       = [(''results_intermediate_2.csv'', 2), (''results_intermediate_4.csv'', 4)]
   \<and> flushes (run_images steady_env \<lparr>output_arg = ''out'', batch_size_arg = 2\<rparr> five_images ())
       = [(''results_intermediate_2.csv'', 2), (''results_intermediate_4.csv'', 4),
          (''results_detailed.csv'', 5)]"
proof -
  have q: "quiet steady_env"
    by (auto simp: quiet_def steady_env_def)
  have b: "(0::int) < batch_size_arg \<lparr>output_arg = ''out'', batch_size_arg = 2\<rparr>"
    by simp
  have pts: "filter (\<lambda>k. int k mod 2 = 0) [1..<Suc (length five_images)] = [2, 4]"
    by (simp add: five_images_def upt_conv_Cons)
  show ?thesis
    using intermediate_flush_points [OF q b, of five_images "()"] q
    by (simp add: pts intermediate_name_def str_int_2_4 DETAILED_RESULTS_FILE_def five_images_def)
qed


lemma results_add_result:
  "results (add_result a path gt pred time ok msg)
     = results a @ [make_result path gt pred time ok msg]"
  by (simp add: add_result_def make_result_def)

lemma save_detailed_results_analyzer:
  "analyzer (fst (save_detailed_results env name s)) = analyzer s"
  by (auto simp: save_detailed_results_def split: prod.splits option.splits)

lemma record_trial_results:
  "results (analyzer (fst (record_trial env args idx path gt pred time ok s)))
     = results (analyzer s) @ [trial_row path gt pred time ok]"
  by (auto simp: record_trial_def trial_row_def results_add_result Let_def
           split: prod.splits)

lemma try_body_raised_first:
  "test_single_image env (fst img) (world s) = (Inl e, w) \<Longrightarrow>
   try_body env args n idx img s = (s\<lparr>world := w\<rparr>, Some e)"
  by (simp add: try_body_def)

lemma try_body_records:
  assumes "test_single_image env (fst img) (world s) = (Inr (pred, time, ok), w)"
  shows "results (analyzer (fst (try_body env args n idx img s)))
           = results (analyzer s) @ [trial_row (fst img) (snd img) pred time ok]"
proof -
  let ?rt = "record_trial env args idx (fst img) (snd img) pred time ok (s\<lparr>world := w\<rparr>)"
  obtain s1 r1 where rt: "?rt = (s1, r1)" by (cases ?rt)
  have a1: "results (analyzer s1)
              = results (analyzer s) @ [trial_row (fst img) (snd img) pred time ok]"
    using record_trial_results [of env args idx "fst img" "snd img" pred time ok "s\<lparr>world := w\<rparr>"] rt
    by simp
  show ?thesis
  proof (cases r1)
    case (Some e)
    then show ?thesis using assms rt a1 by (simp add: try_body_def)
  next
    case None
    let ?s2 = "s1\<lparr>processed_count := processed_count s1 + 1\<rparr>"
    obtain r2 w2 where rs: "(if int idx < int n - 1 then reset_for_next_image env (world ?s2)
                             else (None, world ?s2)) = (r2, w2)"
      by (cases "(if int idx < int n - 1 then reset_for_next_image env (world ?s2)
                  else (None, world ?s2))")
    show ?thesis
    proof (cases r2)
      case (Some e)
      then show ?thesis using assms rt None rs a1 by (simp add: try_body_def Let_def)
    next
      case r2: None
      let ?s3 = "?s2\<lparr>world := w2\<rparr>"
      have "analyzer (fst (try_body env args n idx img s)) = analyzer s1"
        using assms rt None rs r2
              save_detailed_results_analyzer [of env "intermediate_name (processed_count ?s3)" ?s3]
        by (simp add: try_body_def Let_def)
      then show ?thesis using a1 by simp
    qed
  qed
qed

lemma try_body_keeps:
  "set (results (analyzer s)) \<subseteq> set (results (analyzer (fst (try_body env args n idx img s))))"
proof -
  obtain t w where c: "test_single_image env (fst img) (world s) = (t, w)"
    by (cases "test_single_image env (fst img) (world s)")
  show ?thesis
  proof (cases t)
    case (Inl e)
    then show ?thesis using try_body_raised_first [of env img s e w] c by simp
  next
    case (Inr out)
    obtain pred time ok where "out = (pred, time, ok)" by (cases out)
    then show ?thesis using try_body_records [of env img s pred time ok w] c Inr by auto
  qed
qed

lemma run_loop_keeps:
  "set (results (analyzer s)) \<subseteq> set (results (analyzer (run_loop env args n items s)))"
proof (induction items arbitrary: s)
  case Nil
  then show ?case by simp
next
  case (Cons item items)
  obtain idx img where item: "item = (idx, img)" by (cases item)
  obtain s' r where t: "try_body env args n idx img s = (s', r)"
    by (cases "try_body env args n idx img s")
  have k: "set (results (analyzer s)) \<subseteq> set (results (analyzer s'))"
    using try_body_keeps [of s env args n idx img] t by simp
  show ?case
  proof (cases r)
    case None
    then show ?thesis using item t k Cons.IH [of s'] by auto
  next
    case (Some e)
    have "set (results (analyzer s')) \<subseteq> set (results (analyzer (on_exception s' img e)))"
      by (auto simp: on_exception_def results_add_result)
    then show ?thesis using item t k Some Cons.IH [of "on_exception s' img e"] by auto
  qed
qed

text \<open>
  C2. When the \<open>try\<close> body of an item leaves with an exception other than
  \<open>KeyboardInterrupt\<close>, the loop goes on with the remaining items from the state the
  handler leaves, and the results of the run hold an outcome for that item with
  \<open>success = False\<close>, no prediction, and \<open>str(e)\<close> as its error text.
\<close>

theorem exception_recorded_and_loop_goes_on:
  assumes "try_body env args n idx img s = (s', Some e)" and "is_Exception e"
  shows "run_loop env args n ((idx, img) # rest) s
           = run_loop env args n rest (on_exception s' img e)
         \<and> (\<exists>r \<in> set (results (analyzer (run_loop env args n ((idx, img) # rest) s))).
               image_path r = fst img \<and> ground_truth r = snd img \<and> predicted r = None
               \<and> \<not> success r \<and> error r = str_exception e)"
proof -
  let ?r = "make_result (fst img) (snd img) None 0 False (str_exception e)"
  have step: "run_loop env args n ((idx, img) # rest) s
                = run_loop env args n rest (on_exception s' img e)"
    using assms by simp
  have "?r \<in> set (results (analyzer (on_exception s' img e)))"
    by (simp add: on_exception_def results_add_result)
  then have "?r \<in> set (results (analyzer (run_loop env args n rest (on_exception s' img e))))"
    using run_loop_keeps by blast
  moreover have "image_path ?r = fst img \<and> ground_truth ?r = snd img \<and> predicted ?r = None
                 \<and> \<not> success ?r \<and> error ?r = str_exception e"
    by (simp add: make_result_def)
  ultimately show ?thesis using step by metis
qed


theorem exception_recorded_and_loop_goes_on_witness:
  "try_body faulty_env two_args 2 0 (''/data/MES 0/a.jpg'', 0) (initial_state two_args ())
     = (initial_state two_args (), Some (Exception ''no such window''))
   \<and> is_Exception (Exception ''no such window'')
   \<and> map (\<lambda>r. (image_path r, success r, error r))
         (results (analyzer (run_loop faulty_env two_args 2
            [(0, (''/data/MES 0/a.jpg'', 0)), (1, (''/data/MES 1/b.jpg'', 1))]
            (initial_state two_args ()))))
       = [(''/data/MES 0/a.jpg'', False, ''no such window''), (''/data/MES 1/b.jpg'', True, [])]"
proof -
  have t: "try_body faulty_env two_args 2 0 (''/data/MES 0/a.jpg'', 0) (initial_state two_args ())
             = (initial_state two_args (), Some (Exception ''no such window''))"
    by (simp add: try_body_def faulty_env_def)
  have e: "is_Exception (Exception ''no such window'')"
    by simp
  have rest: "map (\<lambda>r. (image_path r, success r, error r))
                (results (analyzer (run_loop faulty_env two_args 2 [(1, (''/data/MES 1/b.jpg'', 1))]
                   (on_exception (initial_state two_args ()) (''/data/MES 0/a.jpg'', 0)
                      (Exception ''no such window'')))))
              = [(''/data/MES 0/a.jpg'', False, ''no such window''), (''/data/MES 1/b.jpg'', True, [])]"
    by (simp add: try_body_def faulty_env_def on_exception_def initial_state_def two_args_def
                  init_analyzer_def add_result_def record_trial_def save_detailed_results_def
                  Let_def)
  from exception_recorded_and_loop_goes_on [OF t e, of "[(1, (''/data/MES 1/b.jpg'', 1))]"]
  show ?thesis using t e rest by simp
qed

text \<open>
  A trial that raises an exception without text is recorded with an empty error message.
\<close>

theorem empty_error_message_counterexample:
  "map (\<lambda>r. (image_path r, success r, error r))
     (results (analyzer (run_loop mute_env two_args 1 [(0, (''/data/MES 0/a.jpg'', 0))]
        (initial_state two_args ()))))
     = [(''/data/MES 0/a.jpg'', False, [])]"
  by (simp add: try_body_def mute_env_def on_exception_def initial_state_def two_args_def
                init_analyzer_def add_result_def)


lemma trial_row_make_result:
  "trial_row path gt pred time ok
     = make_result path gt (if ok then pred else None) time ok
         (if ok then [] else ''Failed to process image'')"
  by (cases ok) (simp_all add: trial_row_def)

text \<open>
  C1. The single trial runs upload, awaitResult and extractClassification in this order,
  reports the wall-clock time from before the upload to after the extraction, and
  succeeds exactly when upload and awaitResult both succeeded. The loop of run_tests.py
  then records an outcome with this success flag and this elapsed time, keeping the
  prediction only for a successful trial.
\<close>

theorem single_trial_outcome:
  assumes "upload d path w0 = (up, w1)"
    and "awaitResult d PROCESSING_TIMEOUT w1 = (ready, w2)"
    and "extractClassification d w2 = (pred, w3)"
  shows "runSingleTrial d path w0 = ((pred, wall_clock d w3 - wall_clock d w0, up \<and> ready), w3)
         \<and> (world s = w0 \<longrightarrow>
              results (analyzer (fst (try_body (trial_env d env) args n idx (path, gt) s)))
                = results (analyzer s) @
                  [make_result path gt (if up \<and> ready then pred else None)
                     (wall_clock d w3 - wall_clock d w0) (up \<and> ready)
                     (if up \<and> ready then [] else ''Failed to process image'')])"
proof (intro conjI impI)
  show run: "runSingleTrial d path w0
               = ((pred, wall_clock d w3 - wall_clock d w0, up \<and> ready), w3)"
    using assms by (simp add: runSingleTrial_def)
  assume "world s = w0"
  then have "test_single_image (trial_env d env) (fst (path, gt)) (world s)
               = (Inr (pred, wall_clock d w3 - wall_clock d w0, up \<and> ready), w3)"
    using run by (simp add: trial_env_def)
  from try_body_records [OF this]
  show "results (analyzer (fst (try_body (trial_env d env) args n idx (path, gt) s)))
          = results (analyzer s) @
            [make_result path gt (if up \<and> ready then pred else None)
               (wall_clock d w3 - wall_clock d w0) (up \<and> ready)
               (if up \<and> ready then [] else ''Failed to process image'')]"
    by (simp only: trial_row_make_result fst_conv snd_conv)
qed

theorem single_trial_outcome_witness:
  "upload slow_driver ''/data/MES 2/d.jpg'' 100 = (True, 102)
   \<and> awaitResult slow_driver PROCESSING_TIMEOUT 102 = (False, 162)
   \<and> extractClassification slow_driver 162 = (Some 2, 163)
   \<and> runSingleTrial slow_driver ''/data/MES 2/d.jpg'' 100 = ((Some 2, 63, False), 163)"
proof -
  have u: "upload slow_driver ''/data/MES 2/d.jpg'' 100 = (True, 102)"
    by (simp add: slow_driver_def)
  have a: "awaitResult slow_driver PROCESSING_TIMEOUT 102 = (False, 162)"
    by (simp add: slow_driver_def PROCESSING_TIMEOUT_def)
  have x: "extractClassification slow_driver 162 = (Some 2, 163)"
    by (simp add: slow_driver_def)
  from single_trial_outcome [OF u a x] show ?thesis
    using u a x by (simp add: slow_driver_def)
qed

section \<open>Properties of the result extraction\<close>

lemma first_pattern_head:
  "re_search pat page_text = Some n \<Longrightarrow> first_pattern (pat # pats) page_text = Some n"
  by simp

lemma body_scan_labelled_first:
  assumes "body_text d = Inr page_text"
    and "re_search (hd mes_patterns) page_text = Some n"
  shows "body_scan d = Inr (Some n)"
  using assms by (simp add: body_scan_def mes_patterns_def)

text \<open>
  C6. On a page whose result-card element reads \<open>Score: 2 ColonoScan MES Score: 3\<close>,
  strategy 1 searches the text of the element for \<open>Score:\s*([0-3])\<close> and takes the
  leftmost match: \<open>extract_mes_classification\<close> returns 2, the number of the bare
  phrase, and not 3, the number of the labelled score card.
\<close>

theorem card_lookup_takes_bare_score:
  "extract_mes_classification (page_driver crowded_card) = Inr (Some 2)"
  by (simp add: extract_mes_classification_def page_driver_def crowded_card_def card_pattern_def
                strip_def py_isspace_def match_at_def class_digit_def char_matches_def)

text \<open>
  The same text is read as 3 by the list of body-text patterns, which tries the labelled
  pattern first, and a card element whose text starts with the label yields its number.
\<close>

lemma body_scan_prefers_label:
  "extract_mes_classification (page_driver plain_page) = Inr (Some 3)"
  by (simp add: extract_mes_classification_def strategy_2_def body_scan_def page_driver_def
                plain_page_def mes_patterns_def match_at_def class_digit_def char_matches_def
                to_lower_def py_isspace_def)

lemma separate_card_element:
  "extract_mes_classification (page_driver usual_page) = Inr (Some 3)"
  by (simp add: extract_mes_classification_def page_driver_def usual_page_def card_pattern_def
                strip_def py_isspace_def match_at_def class_digit_def char_matches_def)


lemma class_digit_not_space:
  "class_digit c = Some n \<Longrightarrow> \<not> py_isspace c"
  by (auto simp: class_digit_def py_isspace_def split: if_splits)

lemma skip_spaces_then_digit:
  assumes "list_all py_isspace ws" and "class_digit c = Some n"
  shows "dropWhile py_isspace (ws @ c # rest) = c # rest"
  using assms class_digit_not_space [OF assms(2)]
  by (induction ws) auto

lemma card_text_labelled:
  assumes "list_all py_isspace ws" and "class_digit c = Some n"
  shows "re_search card_pattern (''ColonoScan MES Score:'' @ ws @ c # rest) = Some n"
  using skip_spaces_then_digit [OF assms, of rest] assms(2)
  by (simp add: card_pattern_def match_at_def char_matches_def)

lemma labelled_card_wins:
  assumes "find_elements_by_text d ''ColonoScan MES Score:'' = Inr (e # es)"
    and "strip (element_text e) = ''ColonoScan MES Score:'' @ ws @ c # rest"
    and "list_all py_isspace ws" and "class_digit c = Some n"
  shows "extract_mes_classification d = Inr (Some n)"
  using assms(1,2) card_text_labelled [OF assms(3,4), of rest]
  by (simp add: extract_mes_classification_def)

end
